theory Spec2Isabelle
  imports Main "HOL-Library.AList"
begin

section \<open>Python values, exceptions and the library functions the agent calls\<close>

text \<open>
  The agent of \<^verbatim>\<open>samples/langchain_openai_voice/__init__.py\<close> moves decoded JSON
  around: events are Python dicts, inputs are Python strings. A value that \<^verbatim>\<open>json.loads\<close>
  can return is a \<open>json\<close>; a Python \<^verbatim>\<open>str\<close> is \<open>JStr\<close>, \<^verbatim>\<open>None\<close> is \<open>JNull\<close>, a
  dict is an association list read with \<open>map_of\<close>.
\<close>

datatype pyfloat = PFloat int int | PNaN | PInf | PNegInf
  \<comment> \<open>\<open>PFloat m e\<close> stands for \<open>m * 2 ^ e\<close>\<close>

datatype json =
    JNull
  | JBool bool
  | JInt int
  | JFloat pyfloat
  | JStr string
  | JArr "json list"
  | JObj "(string \<times> json) list"

datatype exn =
    JSONDecodeError
  | ValueError string
  | KeyError string
  | TypeError
  | AttributeError
  | OtherException string

text \<open>
  \<^verbatim>\<open>json.JSONDecodeError\<close> is a subclass of \<^verbatim>\<open>ValueError\<close>: an
  \<^verbatim>\<open>except ValueError\<close> clause catches both.
\<close>

fun is_ValueError :: "exn \<Rightarrow> bool" where
  "is_ValueError JSONDecodeError = True"
| "is_ValueError (ValueError m) = True"
| "is_ValueError e = False"

text \<open>
  The standard-library functions the source calls are parameters of the model:
  \<^verbatim>\<open>json.loads\<close> on a string (it returns a value or raises), \<^verbatim>\<open>json.dumps\<close> on a
  decoded value, and \<^verbatim>\<open>repr\<close>.
\<close>

record pylib =
  loads :: "string \<Rightarrow> exn + json"
  dumps :: "json \<Rightarrow> string"
  repr :: "json \<Rightarrow> string"

text \<open>\<^verbatim>\<open>json.loads(x)\<close>: anything that is not a string raises \<^verbatim>\<open>TypeError\<close>.\<close>

fun json_loads :: "pylib \<Rightarrow> json \<Rightarrow> exn + json" where
  "json_loads lib (JStr s) = loads lib s"
| "json_loads lib v = Inl TypeError"

text \<open>\<^verbatim>\<open>str(x)\<close>, also what an f-string field formats: a string is itself, anything
  else prints as its \<^verbatim>\<open>repr\<close>.\<close>

fun py_str :: "pylib \<Rightarrow> json \<Rightarrow> string" where
  "py_str lib (JStr s) = s"
| "py_str lib v = repr lib v"

text \<open>\<^verbatim>\<open>str(e)\<close> of an exception, its message. The source reads it in one place, of
  an exception caught as \<^verbatim>\<open>ValueError\<close>; the other exceptions carry no message here.\<close>

fun exn_str :: "exn \<Rightarrow> string" where
  "exn_str (ValueError m) = m"
| "exn_str (OtherException m) = m"
| "exn_str e = []"

text \<open>\<^verbatim>\<open>x[k]\<close> with a string key: only a dict holding the key answers.\<close>

fun subscript :: "json \<Rightarrow> string \<Rightarrow> exn + json" where
  "subscript (JObj kvs) k = (case map_of kvs k of Some v \<Rightarrow> Inr v | None \<Rightarrow> Inl (KeyError k))"
| "subscript v k = Inl TypeError"

text \<open>\<^verbatim>\<open>x.get(k, d)\<close>: only a dict has the method.\<close>

fun py_get :: "json \<Rightarrow> string \<Rightarrow> json \<Rightarrow> exn + json" where
  "py_get (JObj kvs) k d = (case map_of kvs k of Some v \<Rightarrow> Inr v | None \<Rightarrow> Inr d)"
| "py_get v k d = Inl AttributeError"

text \<open>\<^verbatim>\<open>isinstance(x, dict)\<close> and the truth value an \<^verbatim>\<open>if\<close> tests.\<close>

fun is_dict :: "json \<Rightarrow> bool" where
  "is_dict (JObj kvs) = True"
| "is_dict v = False"

fun truthy :: "json \<Rightarrow> bool" where
  "truthy JNull = False"
| "truthy (JBool b) = b"
| "truthy (JInt i) = (i \<noteq> 0)"
| "truthy (JFloat (PFloat m e)) = (m \<noteq> 0)"
| "truthy (JFloat f) = True"
| "truthy (JStr s) = (s \<noteq> [])"
| "truthy (JArr xs) = (xs \<noteq> [])"
| "truthy (JObj kvs) = (kvs \<noteq> [])"

text \<open>Lists and dicts cannot be hashed: looking one up in a set or a dict raises.\<close>

fun hashable :: "json \<Rightarrow> bool" where
  "hashable (JArr xs) = False"
| "hashable (JObj kvs) = False"
| "hashable v = True"

definition EVENTS_TO_IGNORE :: "string list" where
  "EVENTS_TO_IGNORE =
    [''response.function_call_arguments.delta'',
     ''rate_limits.updated'',
     ''response.audio_transcript.delta'',
     ''response.created'',
     ''response.content_part.added'',
     ''response.content_part.done'',
     ''conversation.item.created'',
     ''response.audio.done'',
     ''session.created'',
     ''session.updated'',
     ''response.done'',
     ''response.output_item.done'']"

text \<open>\<^verbatim>\<open>t in EVENTS_TO_IGNORE\<close>, a set of strings.\<close>

definition in_EVENTS_TO_IGNORE :: "json \<Rightarrow> exn + bool" where
  "in_EVENTS_TO_IGNORE t =
    (if \<not> hashable t then Inl TypeError
     else Inr (case t of JStr s \<Rightarrow> s \<in> set EVENTS_TO_IGNORE | _ \<Rightarrow> False))"

section \<open>Tools\<close>

text \<open>
  A tool returns any Python object or raises. \<^verbatim>\<open>run_tool\<close> only serialises what is
  returned, so an object is either one \<^verbatim>\<open>json.dumps\<close> accepts or one for which it
  raises \<^verbatim>\<open>TypeError\<close>, kept by its \<^verbatim>\<open>str()\<close>.
\<close>

datatype pyobj = Serializable json | Opaque string

datatype tool_outcome = Returns pyobj | Raises exn

record tool =
  tool_name :: string
  tool_description :: string
  tool_args :: json
  ainvoke :: "json \<Rightarrow> tool_outcome"

text \<open>
  \<^verbatim>\<open>{tool.name: tool for tool in self.tools or []}\<close>: a dict keeps the position of a
  key's first insertion and the value of its last, which is \<open>AList.update\<close>.
\<close>

definition tools_by_name_of :: "tool list option \<Rightarrow> (string \<times> tool) list" where
  "tools_by_name_of ts =
    foldl (\<lambda>d t. AList.update (tool_name t) t d) [] (case ts of None \<Rightarrow> [] | Some l \<Rightarrow> l)"

text \<open>\<^verbatim>\<open>tools_by_name.get(k)\<close>: an unhashable key raises, a key that is not a string
  is not found.\<close>

definition tools_get :: "(string \<times> tool) list \<Rightarrow> json \<Rightarrow> exn + tool option" where
  "tools_get tbn k =
    (if \<not> hashable k then Inl TypeError
     else Inr (case k of JStr s \<Rightarrow> map_of tbn s | _ \<Rightarrow> None))"

section \<open>The session state\<close>

text \<open>
  Everything the coroutines of one session mutate or emit:
  \<^item> \<open>trigger_future\<close>: \<^verbatim>\<open>VoiceToolExecutor._trigger_future\<close>; \<open>None\<close> while it is
    pending, \<open>Some call\<close> once \<^verbatim>\<open>set_result(call)\<close> has made it done;
  \<^item> \<open>tasks\<close>: the \<^verbatim>\<open>run_tool\<close> tasks in the set \<^verbatim>\<open>tasks\<close> of \<^verbatim>\<open>output_iterator\<close>
    (the trigger task apart), each with the tool, the decoded arguments and the call
    it closes over;
  \<^item> \<open>pending_out\<close>: what \<^verbatim>\<open>output_iterator\<close> produced last (an item it yielded or the
    exception it raised) and the merged loop has not consumed yet; the generator is
    suspended while it is set;
  \<^item> \<open>sent\<close>: the arguments of the calls of \<^verbatim>\<open>model_send\<close>, in order;
  \<^item> \<open>sink\<close>: the arguments of the calls of \<^verbatim>\<open>send_output_chunk\<close>, in order;
  \<^item> \<open>stdout\<close>: the argument lists of the calls of \<^verbatim>\<open>print\<close>, in order.
\<close>

record session =
  trigger_future :: "json option"
  tasks :: "(tool \<times> json \<times> json) list"
  pending_out :: "(exn + json) option"
  sent :: "json list"
  sink :: "json list"
  stdout :: "json list list"

definition model_send :: "json \<Rightarrow> session \<Rightarrow> session" where
  "model_send ev st = st\<lparr>sent := sent st @ [ev]\<rparr>"

definition send_output_chunk :: "json \<Rightarrow> session \<Rightarrow> session" where
  "send_output_chunk chunk st = st\<lparr>sink := sink st @ [chunk]\<rparr>"

definition print :: "json list \<Rightarrow> session \<Rightarrow> session" where
  "print xs st = st\<lparr>stdout := stdout st @ [xs]\<rparr>"

text \<open>
  A coroutine of the source returns the state it leaves behind and, when it raised,
  the exception: what was sent before a raise stays sent.
\<close>

type_synonym outcome = "session \<times> exn option"

section \<open>VoiceToolExecutor\<close>

text \<open>\<^verbatim>\<open>add_tool_call\<close>: a future that is already done is not set again.\<close>

definition add_tool_call :: "json \<Rightarrow> session \<Rightarrow> outcome" where
  "add_tool_call tool_call st =
    (if trigger_future st \<noteq> None
     then (st, Some (ValueError ''Tool call adding already in progress''))
     else (st\<lparr>trigger_future := Some tool_call\<rparr>, None))"

text \<open>The dict both branches of the executor yield for a call.\<close>

definition function_call_output :: "json \<Rightarrow> string \<Rightarrow> json" where
  "function_call_output call_id output =
    JObj [(''type'', JStr ''conversation.item.create''),
          (''item'', JObj [(''id'', call_id),
                           (''call_id'', call_id),
                           (''type'', JStr ''function_call_output''),
                           (''output'', JStr output)])]"

text \<open>
  \<^verbatim>\<open>_create_tool_call_task\<close>: resolve the tool, decode the arguments, and make the task.
  Only \<^verbatim>\<open>JSONDecodeError\<close> is replaced by the \<^verbatim>\<open>ValueError\<close> of the source; any other
  exception leaves as it is.
\<close>

definition create_tool_call_task ::
  "pylib \<Rightarrow> (string \<times> tool) list \<Rightarrow> json \<Rightarrow> exn + (tool \<times> json \<times> json)" where
  "create_tool_call_task lib tbn tool_call =
    (case subscript tool_call ''name'' of
       Inl e \<Rightarrow> Inl e
     | Inr nm \<Rightarrow>
        (case tools_get tbn nm of
           Inl e \<Rightarrow> Inl e
         | Inr None \<Rightarrow>
             Inl (ValueError (''tool '' @ py_str lib nm @ '' not found. '' @
                    ''Must be one of '' @ py_str lib (JArr (map (JStr \<circ> fst) tbn))))
         | Inr (Some t) \<Rightarrow>
            (case subscript tool_call ''arguments'' of
               Inl e \<Rightarrow> Inl e
             | Inr a \<Rightarrow>
                (case json_loads lib a of
                   Inl JSONDecodeError \<Rightarrow>
                     Inl (ValueError (''failed to parse arguments `'' @ py_str lib a @
                            ''`. Must be valid JSON.''))
                 | Inl e \<Rightarrow> Inl e
                 | Inr args \<Rightarrow> Inr (t, args, tool_call)))))"

text \<open>
  \<^verbatim>\<open>run_tool\<close>, the body of a task: what \<^verbatim>\<open>task.result()\<close> returns or raises once
  the tool has finished. Nothing around \<^verbatim>\<open>tool.ainvoke\<close> catches.
\<close>

definition run_tool :: "pylib \<Rightarrow> tool \<times> json \<times> json \<Rightarrow> exn + json" where
  "run_tool lib task =
    (case task of (t, args, tool_call) \<Rightarrow>
      (case ainvoke t args of
         Raises e \<Rightarrow> Inl e
       | Returns result \<Rightarrow>
          (let result_str = (case result of Serializable v \<Rightarrow> dumps lib v | Opaque s \<Rightarrow> s)
           in case subscript tool_call ''call_id'' of
                Inl e \<Rightarrow> Inl e
              | Inr call_id \<Rightarrow> Inr (function_call_output call_id result_str))))"

text \<open>
  \<^verbatim>\<open>output_iterator\<close>, one task of \<^verbatim>\<open>done\<close> at a time. The generator runs only while
  the merged loop is waiting for its next item (\<open>pending_out\<close> empty); what it yields
  or raises is left in \<open>pending_out\<close>.

  The trigger task is done once the future holds a call. The future is replaced
  first, then the call is read and the tool task made; a \<^verbatim>\<open>ValueError\<close> becomes an
  item whose output starts with \<^verbatim>\<open>Error: \<close>, any other exception leaves the generator.
\<close>

definition on_trigger_done :: "pylib \<Rightarrow> (string \<times> tool) list \<Rightarrow> session \<Rightarrow> session" where
  "on_trigger_done lib tbn st =
    (case trigger_future st of
       None \<Rightarrow> st
     | Some tool_call \<Rightarrow>
        (if pending_out st \<noteq> None then st
         else
          (let st1 = st\<lparr>trigger_future := None\<rparr>
           in case create_tool_call_task lib tbn tool_call of
                Inr new_task \<Rightarrow> st1\<lparr>tasks := tasks st1 @ [new_task]\<rparr>
              | Inl e \<Rightarrow>
                 (if is_ValueError e
                  then (case subscript tool_call ''call_id'' of
                          Inl e' \<Rightarrow> st1\<lparr>pending_out := Some (Inl e')\<rparr>
                        | Inr call_id \<Rightarrow>
                            st1\<lparr>pending_out :=
                                  Some (Inr (function_call_output call_id
                                               (''Error: '' @ exn_str e)))\<rparr>)
                  else st1\<lparr>pending_out := Some (Inl e)\<rparr>))))"

text \<open>
  A tool task that is done (the \<open>i\<close>-th in flight) is removed from the set and its
  \<^verbatim>\<open>task.result()\<close> is yielded as it is: when the task raised, so does this line.
\<close>

definition on_tool_done :: "pylib \<Rightarrow> nat \<Rightarrow> session \<Rightarrow> session" where
  "on_tool_done lib i st =
    (if i < length (tasks st) \<and> pending_out st = None
     then st\<lparr>tasks := take i (tasks st) @ drop (Suc i) (tasks st),
              pending_out := Some (run_tool lib (tasks st ! i))\<rparr>
     else st)"

section \<open>OpenAIVoiceReactAgent\<close>

record agent =
  model :: string
  api_key :: string
  instructions :: "string option"
  tools :: "tool list option"
  url :: string

text \<open>The events \<^verbatim>\<open>aconnect\<close> builds itself.\<close>

definition tool_def :: "tool \<Rightarrow> json" where
  "tool_def t =
    JObj [(''type'', JStr ''function''),
          (''name'', JStr (tool_name t)),
          (''description'', JStr (tool_description t)),
          (''parameters'', JObj [(''type'', JStr ''object''), (''properties'', tool_args t)])]"

definition session_update :: "string option \<Rightarrow> (string \<times> tool) list \<Rightarrow> json" where
  "session_update instr tbn =
    JObj [(''type'', JStr ''session.update''),
          (''session'',
           JObj [(''instructions'', (case instr of None \<Rightarrow> JNull | Some s \<Rightarrow> JStr s)),
                 (''input_audio_transcription'', JObj [(''model'', JStr ''whisper-1'')]),
                 (''tools'', JArr (map (tool_def \<circ> snd) tbn))])]"

definition text_input_item :: "json \<Rightarrow> json" where
  "text_input_item data_raw =
    JObj [(''type'', JStr ''conversation.item.create''),
          (''item'',
           JObj [(''id'', JStr ''text_input''),
                 (''type'', JStr ''message''),
                 (''role'', JStr ''user''),
                 (''content'', JArr [JObj [(''type'', JStr ''input_text''),
                                          (''text'', data_raw)]])])]"

definition response_create_text :: json where
  "response_create_text =
    JObj [(''type'', JStr ''response.create''),
          (''response'',
           JObj [(''modalities'', JArr [JStr ''text'']),
                 (''instructions'', JStr ''Please respond concisely.'')])]"

definition response_create_empty :: json where
  "response_create_empty =
    JObj [(''type'', JStr ''response.create''), (''response'', JObj [])]"

text \<open>The second argument of the \<^verbatim>\<open>print\<close> for a speech-started event, a Japanese
  sentence, as its UTF-8 bytes.\<close>

definition speech_started_note :: string where
  "speech_started_note =
    map char_of
      [227, 130, 175, 227, 131, 169, 227, 130, 164, 227, 130, 162, 227, 131, 179, 227, 131,
       136, 229, 129, 180, 227, 129, 167, 233, 159, 179, 229, 163, 176, 227, 130, 146, 228,
       184, 173, 230, 150, 173, 227, 129, 170, 227, 129, 169, 227, 129, 174, 229, 135, 166,
       231, 144, 134, 227, 130, 146, 232, 128, 131, 230, 133, 174, 229, 143, 175, 232, 131,
       189 :: nat]"

subsection \<open>The branches of the merged loop\<close>

text \<open>\<^verbatim>\<open>stream_key == "input_mic"\<close>: the event is forwarded as it is, after its type
  has been read.\<close>

definition on_input_mic :: "json \<Rightarrow> session \<Rightarrow> outcome" where
  "on_input_mic data st =
    (case subscript data ''type'' of
       Inl e \<Rightarrow> (st, Some e)
     | Inr t \<Rightarrow>
        (let st1 = (if t = JStr ''conversation.item.create''
                    then print [JStr ''conversation item create: '', data] st else st)
         in (model_send data st1, None)))"

text \<open>\<^verbatim>\<open>stream_key == "text"\<close>: the wrapped text, then (after the sleep of 0.1 s, which
  has no place in the model) the request for a reply.\<close>

definition on_text :: "json \<Rightarrow> session \<Rightarrow> outcome" where
  "on_text data st =
    (let st1 = print [JStr ''Received text input => sending to model:'', data] st;
         st2 = model_send data st1;
         event = response_create_text;
         st3 = print [JStr ''Sending response.create for text input:'', event] st2
     in (model_send event st3, None))"

text \<open>The \<^verbatim>\<open>try\<close> block around the return-direct check: \<^verbatim>\<open>except Exception: pass\<close>
  ends it quietly wherever it raises.\<close>

definition return_direct_check :: "pylib \<Rightarrow> json \<Rightarrow> session \<Rightarrow> session" where
  "return_direct_check lib output_str st =
    (case json_loads lib output_str of
       Inl e \<Rightarrow> st
     | Inr output_json \<Rightarrow>
        (if is_dict output_json
         then (case py_get output_json ''return_direct'' (JBool False) of
                 Inl e \<Rightarrow> st
               | Inr return_direct \<Rightarrow>
                  (if truthy return_direct then send_output_chunk output_str st else st))
         else st))"

text \<open>\<^verbatim>\<open>stream_key == "tool_outputs"\<close>: both sends come first, the check after them.\<close>

definition on_tool_outputs :: "pylib \<Rightarrow> json \<Rightarrow> session \<Rightarrow> outcome" where
  "on_tool_outputs lib data st =
    (let st1 = print [JStr ''tool output:'', data] st;
         st2 = model_send data st1;
         st3 = model_send response_create_empty st2
     in case subscript data ''type'' of
          Inl e \<Rightarrow> (st3, Some e)
        | Inr t \<Rightarrow>
           (if t = JStr ''conversation.item.create''
            then (case subscript data ''item'' of
                    Inl e \<Rightarrow> (st3, Some e)
                  | Inr item \<Rightarrow>
                     (case py_get item ''output'' (JStr []) of
                        Inl e \<Rightarrow> (st3, Some e)
                      | Inr output_str \<Rightarrow> (return_direct_check lib output_str st3, None)))
            else (st3, None)))"

text \<open>\<^verbatim>\<open>stream_key == "output_speaker"\<close>: the \<^verbatim>\<open>if\<close>/\<^verbatim>\<open>elif\<close> chain on the type, in
  the order of the source. Nothing here catches what \<^verbatim>\<open>add_tool_call\<close> raises.\<close>

definition on_output_speaker :: "pylib \<Rightarrow> json \<Rightarrow> session \<Rightarrow> outcome" where
  "on_output_speaker lib data st =
    (case subscript data ''type'' of
       Inl e \<Rightarrow> (st, Some e)
     | Inr t \<Rightarrow>
        (if t = JStr ''response.audio.delta''
         then (send_output_chunk (JStr (dumps lib data)) st, None)
         else if t = JStr ''response.audio_buffer.speech_started''
         then (send_output_chunk (JStr (dumps lib data)) st, None)
         else if t = JStr ''error''
         then (print [JStr ''error:'', data] st, None)
         else if t = JStr ''response.function_call_arguments.done''
         then add_tool_call data (print [JStr ''function_call:'', data] st)
         else if t = JStr ''response.audio_transcript.done''
         then (case subscript data ''transcript'' of
                 Inl e \<Rightarrow> (st, Some e)
               | Inr tr \<Rightarrow> (print [JStr ''model(audio transcript):'', tr] st, None))
         else if t = JStr ''conversation.item.input_audio_transcription.completed''
         then (case subscript data ''transcript'' of
                 Inl e \<Rightarrow> (st, Some e)
               | Inr tr \<Rightarrow> (print [JStr ''user(audio):'', tr] st, None))
         else if t = JStr ''response.text.done''
         then (let st1 = print [JStr ''response.text.done:'', data] st
               in case py_get data ''text'' (JStr []) of
                    Inl e \<Rightarrow> (st1, Some e)
                  | Inr response_text \<Rightarrow> (send_output_chunk response_text st1, None))
         else (case in_EVENTS_TO_IGNORE t of
                 Inl e \<Rightarrow> (st, Some e)
               | Inr True \<Rightarrow> (st, None)
               | Inr False \<Rightarrow>
                  (if t = JStr ''input_audio_buffer.speech_started''
                   then (print [JStr ''input_audio_buffer.speech_started'',
                                JStr speech_started_note] st, None)
                   else (print [JStr ''Unhandled event type:'', t] st, None)))))"

definition route :: "pylib \<Rightarrow> string \<Rightarrow> json \<Rightarrow> session \<Rightarrow> outcome" where
  "route lib stream_key data st =
    (if stream_key = ''input_mic'' then on_input_mic data st
     else if stream_key = ''text'' then on_text data st
     else if stream_key = ''tool_outputs'' then on_tool_outputs lib data st
     else if stream_key = ''output_speaker'' then on_output_speaker lib data st
     else (st, None))"

text \<open>
  The body of the \<^verbatim>\<open>async for\<close> for one merged item \<^verbatim>\<open>(stream_key, data_raw)\<close>: a
  string is decoded; when that raises \<^verbatim>\<open>JSONDecodeError\<close> the string is wrapped as a
  user message and the key becomes \<^verbatim>\<open>"text"\<close>, whatever the key was. Any other
  exception of the decoding leaves the loop.
\<close>

definition on_item :: "pylib \<Rightarrow> string \<Rightarrow> json \<Rightarrow> session \<Rightarrow> outcome" where
  "on_item lib stream_key data_raw st =
    (case (case data_raw of JStr s \<Rightarrow> loads lib s | _ \<Rightarrow> Inr data_raw) of
       Inr data \<Rightarrow> route lib stream_key data st
     | Inl JSONDecodeError \<Rightarrow>
         route lib ''text'' (text_input_item data_raw)
           (print [JStr ''Received raw text input:'', data_raw] st)
     | Inl e \<Rightarrow> (st, Some e))"

subsection \<open>The session: the three merged streams and the loop\<close>

text \<open>
  \<^verbatim>\<open>amerge\<close> hands the loop one item at a time, from whichever stream has one; which
  stream is ready first is the scheduler's choice, so a run of the session is driven
  by a list of what happens, in the order it happens:
  \<^item> \<open>InputMic v\<close>: the loop receives \<open>v\<close> from \<^verbatim>\<open>input_stream\<close>;
  \<^item> \<open>OutputSpeaker v\<close>: the loop receives the decoded event \<open>v\<close> from
    \<^verbatim>\<open>model_receive_stream\<close>;
  \<^item> \<open>TriggerDone\<close>: \<^verbatim>\<open>output_iterator\<close> finds its trigger task done;
  \<^item> \<open>ToolDone i\<close>: \<^verbatim>\<open>output_iterator\<close> finds the \<open>i\<close>-th tool task done;
  \<^item> \<open>ToolOutputs\<close>: the loop receives what \<^verbatim>\<open>output_iterator\<close> produced; an
    exception it raised comes out of \<^verbatim>\<open>amerge\<close> and ends \<^verbatim>\<open>aconnect\<close>.
\<close>

datatype action =
    InputMic json
  | OutputSpeaker json
  | TriggerDone
  | ToolDone nat
  | ToolOutputs

definition session_step ::
  "pylib \<Rightarrow> (string \<times> tool) list \<Rightarrow> action \<Rightarrow> session \<Rightarrow> outcome" where
  "session_step lib tbn a st =
    (case a of
       InputMic v \<Rightarrow> on_item lib ''input_mic'' v st
     | OutputSpeaker v \<Rightarrow> on_item lib ''output_speaker'' v st
     | TriggerDone \<Rightarrow> (on_trigger_done lib tbn st, None)
     | ToolDone i \<Rightarrow> (on_tool_done lib i st, None)
     | ToolOutputs \<Rightarrow>
        (case pending_out st of
           None \<Rightarrow> (st, None)
         | Some (Inl e) \<Rightarrow> (st, Some e)
         | Some (Inr ev) \<Rightarrow> on_item lib ''tool_outputs'' ev (st\<lparr>pending_out := None\<rparr>)))"

text \<open>The loop stops at the first exception: nothing in \<^verbatim>\<open>aconnect\<close> catches one.\<close>

fun aconnect_loop ::
  "pylib \<Rightarrow> (string \<times> tool) list \<Rightarrow> action list \<Rightarrow> session \<Rightarrow> outcome" where
  "aconnect_loop lib tbn [] st = (st, None)"
| "aconnect_loop lib tbn (a # as) st =
    (case session_step lib tbn a st of
       (st', None) \<Rightarrow> aconnect_loop lib tbn as st'
     | (st', Some e) \<Rightarrow> (st', Some e))"

definition initial_session :: session where
  "initial_session =
    \<lparr>trigger_future = None, tasks = [], pending_out = None,
     sent = [], sink = [], stdout = []\<rparr>"

definition aconnect :: "agent \<Rightarrow> pylib \<Rightarrow> action list \<Rightarrow> outcome" where
  "aconnect self lib sched =
    (let tools_by_name = tools_by_name_of (tools self);
         st = model_send (session_update (instructions self) tools_by_name) initial_session
     in aconnect_loop lib tools_by_name sched st)"

section \<open>The stream merger\<close>

text \<open>
  Modelled from the spec: \<^verbatim>\<open>amerge\<close> is imported from \<^verbatim>\<open>langchain_openai_voice.utils\<close>,
  a module of this package that is not among the sources; only its call in
  \<^verbatim>\<open>aconnect\<close> is. The definitions of this section follow section 4.2 of the
  specification: a fixed mapping from origin tag to an asynchronous source, each lazy
  and potentially infinite; one pending next-item task per live source; whichever
  resolves first is yielded with its tag and replaced by a new pending task for the
  same source, unless the source is exhausted, in which case it is dropped from the
  wait set; the merge terminates when all sources are exhausted.

  An asynchronous source, asked for its next item, is exhausted or gives an item and
  goes on; it may go on for ever.
\<close>

codatatype 'a source = Exhausted | Item 'a "'a source"

primrec source_of :: "'a list \<Rightarrow> 'a source" where
  "source_of [] = Exhausted"
| "source_of (x # xs) = Item x (source_of xs)"

primrec prepend :: "'a list \<Rightarrow> 'a source \<Rightarrow> 'a source" where
  "prepend [] s = s"
| "prepend (x # xs) s = Item x (prepend xs s)"

primcorec forever :: "'a \<Rightarrow> 'a source" where
  "forever x = Item x (forever x)"

inductive finite_source :: "'a source \<Rightarrow> bool" where
  exhausted: "finite_source Exhausted"
| item: "finite_source s \<Longrightarrow> finite_source (Item x s)"

code_pred finite_source .

text \<open>
  Modelled from the spec: the wait set, one entry per live source with its tag, and
  one round of the merge. Which pending task resolves first is not fixed by the
  specification ("first-ready-wins"), so the round takes the position \<open>i\<close> of the
  task that does; a position outside the wait set is a round in which nothing happens.
\<close>

type_synonym 'a wait_set = "(string \<times> 'a source) list"

definition amerge_round :: "nat \<Rightarrow> 'a wait_set \<Rightarrow> (string \<times> 'a) option \<times> 'a wait_set" where
  "amerge_round i nexts =
    (if i < length nexts
     then (case nexts ! i of
             (key, Item x s) \<Rightarrow> (Some (key, x), nexts[i := (key, s)])
           | (key, Exhausted) \<Rightarrow> (None, take i nexts @ drop (Suc i) nexts))
     else (None, nexts))"

text \<open>
  Modelled from the spec: the merge under a schedule, the list of the positions that
  resolve first, round after round. It returns the tagged items yielded, in order,
  and the wait set left; the merged sequence has ended when that is empty.
\<close>

fun amerge :: "nat list \<Rightarrow> 'a wait_set \<Rightarrow> (string \<times> 'a) list \<times> 'a wait_set" where
  "amerge [] nexts = ([], nexts)"
| "amerge (i # sched) nexts =
    (case amerge_round i nexts of
       (None, nexts') \<Rightarrow> amerge sched nexts'
     | (Some y, nexts') \<Rightarrow> (case amerge sched nexts' of (out, rest) \<Rightarrow> (y # out, rest)))"

text \<open>The items of one tag in a merged sequence, and the source a wait set holds for
  a tag (a source that was dropped is exhausted).\<close>

definition items_of :: "string \<Rightarrow> (string \<times> 'a) list \<Rightarrow> 'a list" where
  "items_of key out = map snd (filter (\<lambda>p. fst p = key) out)"

definition source_at :: "'a wait_set \<Rightarrow> string \<Rightarrow> 'a source" where
  "source_at nexts key = (case map_of nexts key of Some s \<Rightarrow> s | None \<Rightarrow> Exhausted)"

definition all_finite :: "'a wait_set \<Rightarrow> bool" where
  "all_finite nexts = list_all (\<lambda>p. finite_source (snd p)) nexts"

section \<open>Example data\<close>

text \<open>
  The inputs the examples below run on. \<open>example_call\<close> is a
  \<^verbatim>\<open>response.function_call_arguments.done\<close> event as the backend sends it.
  \<open>example_loads\<close>, \<open>example_dumps\<close> and \<open>example_repr\<close> tabulate \<^verbatim>\<open>json.loads\<close>,
  \<^verbatim>\<open>json.dumps\<close> and \<^verbatim>\<open>repr\<close> at the values the examples use, and say so for any
  other; no example reaches the last line of a table.
\<close>

definition example_call :: "string \<Rightarrow> string \<Rightarrow> string \<Rightarrow> json" where
  "example_call call_id nm arguments =
    JObj [(''type'', JStr ''response.function_call_arguments.done''),
          (''call_id'', JStr call_id),
          (''name'', JStr nm),
          (''arguments'', JStr arguments)]"

definition example_loads :: "string \<Rightarrow> exn + json" where
  "example_loads s =
    (if s = ''hello'' then Inl JSONDecodeError
     else if take 7 s = ''Error: '' then Inl JSONDecodeError
     else if s = ''{bad'' then Inl JSONDecodeError
     else if s = ''42'' then Inr (JInt 42)
     else if s = ''{}'' then Inr (JObj [])
     else if s = ''{\"return_direct\": true, \"value\": \"X\"}''
       then Inr (JObj [(''return_direct'', JBool True), (''value'', JStr ''X'')])
     else if s = ''{\"return_direct\": \"yes\"}''
       then Inr (JObj [(''return_direct'', JStr ''yes'')])
     else Inl (OtherException ''not in the table''))"

definition example_dumps :: "json \<Rightarrow> string" where
  "example_dumps v =
    (if v = JObj [] then ''{}''
     else if v = JObj [(''return_direct'', JBool True), (''value'', JStr ''X'')]
       then ''{\"return_direct\": true, \"value\": \"X\"}''
     else if v = JObj [(''return_direct'', JStr ''yes'')]
       then ''{\"return_direct\": \"yes\"}''
     else ''not in the table'')"

definition example_repr :: "json \<Rightarrow> string" where
  "example_repr v =
    (if v = JArr [] then ''[]''
     else if v = JArr [JStr ''boom''] then ''['boom']''
     else if v = JArr [JStr ''echo''] then ''['echo']''
     else ''not in the table'')"

definition example_lib :: pylib where
  "example_lib = \<lparr>loads = example_loads, dumps = example_dumps, repr = example_repr\<rparr>"

text \<open>Two tools: one returns its arguments, one raises whatever it is given.\<close>

definition echo_tool :: tool where
  "echo_tool =
    \<lparr>tool_name = ''echo'', tool_description = ''returns its arguments'',
     tool_args = JObj [], ainvoke = (\<lambda>args. Returns (Serializable args))\<rparr>"

definition boom_tool :: tool where
  "boom_tool =
    \<lparr>tool_name = ''boom'', tool_description = ''always fails'',
     tool_args = JObj [], ainvoke = (\<lambda>args. Raises (OtherException ''boom''))\<rparr>"

definition example_agent :: "tool list \<Rightarrow> agent" where
  "example_agent ts =
    \<lparr>model = ''gpt-4o-mini-realtime-preview-2024-12-17'', api_key = [],
     instructions = None, tools = Some ts, url = ''wss://api.openai.com/v1/realtime''\<rparr>"

section \<open>Facts about the Python operations\<close>

lemma subscript_Inr_dict:
  "subscript d k = Inr v \<Longrightarrow> \<exists>kvs. d = JObj kvs \<and> map_of kvs k = Some v"
  by (cases d) (auto split: option.splits)

lemma subscript_Inl_cases:
  "subscript d k = Inl e \<Longrightarrow> e = TypeError \<or> e = KeyError k"
  by (cases d) (auto split: option.splits)

lemma on_item_dict:
  "on_item lib stream_key (JObj kvs) st = route lib stream_key (JObj kvs) st"
  by (simp add: on_item_def)

lemma subscript_function_call_output [simp]:
  "subscript (function_call_output call_id output) ''type'' = Inr (JStr ''conversation.item.create'')"
  "subscript (function_call_output call_id output) ''item'' =
     Inr (JObj [(''id'', call_id), (''call_id'', call_id),
                (''type'', JStr ''function_call_output''), (''output'', JStr output)])"
  by (simp_all add: function_call_output_def)

section \<open>What the loop leaves alone, and what the executor yields\<close>

lemma aconnect_loop_append:
  "aconnect_loop lib tbn (xs @ ys) st =
     (case aconnect_loop lib tbn xs st of
        (st', None) \<Rightarrow> aconnect_loop lib tbn ys st'
      | (st', Some e) \<Rightarrow> (st', Some e))"
  by (induction xs arbitrary: st) (auto split: prod.splits option.splits)

lemma return_direct_check_frame:
  "pending_out (return_direct_check lib out st) = pending_out st"
  "sent (return_direct_check lib out st) = sent st"
  by (simp_all add: return_direct_check_def send_output_chunk_def
      split: sum.splits)

lemma on_input_mic_frame: "pending_out (fst (on_input_mic data st)) = pending_out st"
  by (simp add: on_input_mic_def Let_def model_send_def print_def split: sum.splits)

lemma on_text_frame: "pending_out (fst (on_text data st)) = pending_out st"
  by (simp add: on_text_def Let_def model_send_def print_def)

lemma on_tool_outputs_frame: "pending_out (fst (on_tool_outputs lib data st)) = pending_out st"
  by (simp add: on_tool_outputs_def Let_def model_send_def print_def
      return_direct_check_frame split: sum.splits)

lemma on_output_speaker_frame:
  "pending_out (fst (on_output_speaker lib data st)) = pending_out st"
  by (simp add: on_output_speaker_def Let_def send_output_chunk_def print_def
      add_tool_call_def split: sum.splits bool.splits)

lemma route_frame: "pending_out (fst (route lib stream_key data st)) = pending_out st"
  by (simp add: route_def on_input_mic_frame on_text_frame on_tool_outputs_frame
      on_output_speaker_frame)

lemma on_item_frame: "pending_out (fst (on_item lib stream_key data_raw st)) = pending_out st"
  by (simp add: on_item_def route_frame print_def split: sum.splits exn.splits json.splits)

text \<open>
  Every item \<^verbatim>\<open>output_iterator\<close> yields is a \<open>function_call_output\<close>: the two
  \<^verbatim>\<open>yield\<close> statements build no other dict. This holds of the item waiting for the
  loop at any moment of any run.
\<close>

lemma run_tool_shape:
  "run_tool lib task = Inr ev \<Longrightarrow> \<exists>call_id out. ev = function_call_output call_id out"
  by (cases task) (auto simp: run_tool_def Let_def split: tool_outcome.splits sum.splits)

lemma session_step_shape:
  assumes "\<forall>ev. pending_out st = Some (Inr ev) \<longrightarrow>
             (\<exists>call_id out. ev = function_call_output call_id out)"
  shows "\<forall>ev. pending_out (fst (session_step lib tbn a st)) = Some (Inr ev) \<longrightarrow>
             (\<exists>call_id out. ev = function_call_output call_id out)"
proof (cases a)
  case (InputMic v)
  then show ?thesis using assms by (simp add: session_step_def on_item_frame)
next
  case (OutputSpeaker v)
  then show ?thesis using assms by (simp add: session_step_def on_item_frame)
next
  case TriggerDone
  then show ?thesis using assms
    by (auto simp: session_step_def on_trigger_done_def Let_def
        split: option.splits sum.splits if_splits)
next
  case (ToolDone i)
  then show ?thesis using assms
    by (auto simp: session_step_def on_tool_done_def dest: run_tool_shape)
next
  case ToolOutputs
  then show ?thesis using assms
    by (auto simp: session_step_def on_item_frame split: option.splits sum.splits)
qed

lemma aconnect_loop_shape:
  assumes "\<forall>ev. pending_out st = Some (Inr ev) \<longrightarrow>
             (\<exists>call_id out. ev = function_call_output call_id out)"
  shows "\<forall>ev. pending_out (fst (aconnect_loop lib tbn sched st)) = Some (Inr ev) \<longrightarrow>
             (\<exists>call_id out. ev = function_call_output call_id out)"
  using assms
proof (induction sched arbitrary: st)
  case Nil
  then show ?case by simp
next
  case (Cons a sched)
  obtain st' r where step: "session_step lib tbn a st = (st', r)"
    by (cases "session_step lib tbn a st")
  have inv: "\<forall>ev. pending_out st' = Some (Inr ev) \<longrightarrow>
             (\<exists>call_id out. ev = function_call_output call_id out)"
    using session_step_shape [OF Cons.prems, of lib tbn a] step by simp
  show ?case
  proof (cases r)
    case None
    then show ?thesis using step Cons.IH [OF inv] by simp
  next
    case (Some e)
    then show ?thesis using step inv by simp
  qed
qed

lemma aconnect_shape:
  "pending_out (fst (aconnect self lib sched)) = Some (Inr ev) \<Longrightarrow>
     \<exists>call_id out. ev = function_call_output call_id out"
proof -
  have "\<forall>ev. pending_out
          (model_send (session_update (instructions self) (tools_by_name_of (tools self)))
             initial_session) = Some (Inr ev) \<longrightarrow>
          (\<exists>call_id out. ev = function_call_output call_id out)"
    by (simp add: model_send_def initial_session_def)
  from aconnect_loop_shape [OF this]
  show "pending_out (fst (aconnect self lib sched)) = Some (Inr ev) \<Longrightarrow>
     \<exists>call_id out. ev = function_call_output call_id out"
    by (simp add: aconnect_def Let_def)
qed

text \<open>The loop's handling of a yielded item, in full.\<close>

lemma on_tool_outputs_function_call_output:
  "on_tool_outputs lib (function_call_output call_id out) st =
     (return_direct_check lib (JStr out)
        (model_send response_create_empty
          (model_send (function_call_output call_id out)
            (print [JStr ''tool output:'', function_call_output call_id out] st))), None)"
  by (simp add: on_tool_outputs_def Let_def)

lemma session_step_ToolOutputs:
  assumes "pending_out st = Some (Inr (function_call_output call_id out))"
  shows "session_step lib tbn ToolOutputs st =
     (return_direct_check lib (JStr out)
        (model_send response_create_empty
          (model_send (function_call_output call_id out)
            (print [JStr ''tool output:'', function_call_output call_id out]
               (st\<lparr>pending_out := None\<rparr>)))), None)"
proof -
  have "on_item lib ''tool_outputs'' (function_call_output call_id out) (st\<lparr>pending_out := None\<rparr>) =
      on_tool_outputs lib (function_call_output call_id out) (st\<lparr>pending_out := None\<rparr>)"
    by (simp add: function_call_output_def on_item_def route_def)
  then show ?thesis
    using assms by (simp add: session_step_def on_tool_outputs_function_call_output)
qed

text \<open>The equations that evaluate a run on the example data.\<close>

lemmas run_defs =
  aconnect_def tools_by_name_of_def session_step_def on_item_def route_def
  on_input_mic_def on_text_def on_tool_outputs_def on_output_speaker_def
  return_direct_check_def add_tool_call_def on_trigger_done_def on_tool_done_def
  create_tool_call_task_def run_tool_def tools_get_def in_EVENTS_TO_IGNORE_def
  model_send_def send_output_chunk_def print_def initial_session_def

lemmas example_defs =
  example_agent_def example_lib_def example_loads_def example_dumps_def example_repr_def
  example_call_def echo_tool_def boom_tool_def

section \<open>Facts about the merge\<close>

lemma prepend_Exhausted: "prepend xs Exhausted = source_of xs"
  by (induction xs) simp_all

lemma source_of_inject: "source_of xs = source_of ys \<Longrightarrow> xs = ys"
proof (induction xs arbitrary: ys)
  case Nil
  then show ?case by (cases ys) simp_all
next
  case (Cons x xs)
  then show ?case by (cases ys) auto
qed

lemma finite_source_of: "finite_source (source_of xs)"
  by (induction xs) (auto intro: finite_source.intros)

lemma forever_not_finite_aux: "finite_source s \<Longrightarrow> s \<noteq> forever x"
proof (induction rule: finite_source.induct)
  case exhausted
  show ?case by (subst forever.code) simp
next
  case (item s y)
  show ?case
  proof
    assume "Item y s = forever x"
    then have "Item y s = Item x (forever x)"
      by (subst (asm) forever.code)
    then show False using item.IH by simp
  qed
qed

lemma forever_not_finite: "\<not> finite_source (forever x)"
proof
  assume "finite_source (forever x)"
  from forever_not_finite_aux [OF this, of x] show False by simp
qed

text \<open>A round at a position of the wait set, by what is pending there.\<close>

lemma amerge_round_Item:
  "amerge_round (length pre) (pre @ (key, Item x s) # post) =
     (Some (key, x), pre @ (key, s) # post)"
  by (simp add: amerge_round_def)

lemma amerge_round_Exhausted:
  "amerge_round (length pre) (pre @ (key, Exhausted) # post) = (None, pre @ post)"
  by (simp add: amerge_round_def)

lemma amerge_round_outside:
  "length nexts \<le> i \<Longrightarrow> amerge_round i nexts = (None, nexts)"
  by (simp add: amerge_round_def)

lemma amerge_round_cases:
  obtains (outside) "length nexts \<le> i" "amerge_round i nexts = (None, nexts)"
  | (item) pre key x s post where "nexts = pre @ (key, Item x s) # post" "i = length pre"
      "amerge_round i nexts = (Some (key, x), pre @ (key, s) # post)"
  | (dropped) pre key post where "nexts = pre @ (key, Exhausted) # post" "i = length pre"
      "amerge_round i nexts = (None, pre @ post)"
proof (cases "i < length nexts")
  case False
  show thesis
  proof (rule outside)
    show "length nexts \<le> i"
      using False by simp
    show "amerge_round i nexts = (None, nexts)"
      using False by (simp add: amerge_round_def)
  qed
next
  case True
  define pre where "pre = take i nexts"
  define post where "post = drop (Suc i) nexts"
  obtain key src where p: "nexts ! i = (key, src)"
    by (cases "nexts ! i")
  have split: "nexts = pre @ (key, src) # post"
    unfolding pre_def post_def p [symmetric] using True by (rule id_take_nth_drop)
  have len: "i = length pre"
    unfolding pre_def using True by simp
  show thesis
  proof (cases src)
    case Exhausted
    show thesis
    proof (rule dropped)
      show "nexts = pre @ (key, Exhausted) # post"
        using split Exhausted by simp
      show "i = length pre" by (rule len)
      show "amerge_round i nexts = (None, pre @ post)"
        unfolding split len Exhausted by (rule amerge_round_Exhausted)
    qed
  next
    case (Item x s)
    show thesis
    proof (rule item)
      show "nexts = pre @ (key, Item x s) # post"
        using split Item by simp
      show "i = length pre" by (rule len)
      show "amerge_round i nexts = (Some (key, x), pre @ (key, s) # post)"
        unfolding split len Item by (rule amerge_round_Item)
    qed
  qed
qed

subsection \<open>When the merge ends\<close>

lemma amerge_ends_head:
  assumes "finite_source s"
    and "\<exists>sched out. amerge sched post = (out, [])"
  shows "\<exists>sched out. amerge sched ((key, s) # post) = (out, [])"
  using assms
proof (induction rule: finite_source.induct)
  case exhausted
  then obtain sched out where "amerge sched post = (out, [])" by blast
  then have "amerge (0 # sched) ((key, Exhausted) # post) = (out, [])"
    using amerge_round_Exhausted [of "[]" key post] by simp
  then show ?case by blast
next
  case (item s x)
  then obtain sched out where "amerge sched ((key, s) # post) = (out, [])" by blast
  then have "amerge (0 # sched) ((key, Item x s) # post) = ((key, x) # out, [])"
    using amerge_round_Item [of "[]" key x s post] by simp
  then show ?case by blast
qed

lemma amerge_ends_if_finite:
  "all_finite nexts \<Longrightarrow> \<exists>sched out. amerge sched nexts = (out, [])"
proof (induction nexts)
  case Nil
  have "amerge [] [] = ([], [])" by simp
  then show ?case by blast
next
  case (Cons p nexts)
  obtain key s where p: "p = (key, s)" by (cases p)
  have "finite_source s" "all_finite nexts"
    using Cons.prems by (simp_all add: all_finite_def p)
  then show ?case
    unfolding p using Cons.IH amerge_ends_head by blast
qed

lemma amerge_finite_if_ends:
  "amerge sched nexts = (out, []) \<Longrightarrow> all_finite nexts"
proof (induction sched arbitrary: nexts out)
  case Nil
  then show ?case by (simp add: all_finite_def)
next
  case (Cons i sched)
  show ?case
  proof (cases rule: amerge_round_cases [of nexts i])
    case outside
    then show ?thesis using Cons by simp
  next
    case (item pre key x s post)
    then have "\<exists>out'. amerge sched (pre @ (key, s) # post) = (out', [])"
      using Cons.prems by (auto split: prod.splits)
    then have "all_finite (pre @ (key, s) # post)"
      using Cons.IH by blast
    then show ?thesis
      unfolding item(1) by (auto simp: all_finite_def intro: finite_source.intros)
  next
    case (dropped pre key post)
    then have "amerge sched (pre @ post) = (out, [])"
      using Cons.prems by simp
    then have "all_finite (pre @ post)"
      using Cons.IH by blast
    then show ?thesis
      unfolding dropped(1) by (auto simp: all_finite_def intro: finite_source.intros)
  qed
qed

subsection \<open>The order within a source\<close>

lemma source_at_here:
  "key \<notin> fst ` set pre \<Longrightarrow> source_at (pre @ (key, s) # post) key = s"
  by (induction pre) (auto simp: source_at_def)

lemma source_at_elsewhere:
  "key' \<noteq> key \<Longrightarrow> source_at (pre @ (key, s) # post) key' = source_at (pre @ post) key'"
  by (induction pre) (auto simp: source_at_def)

lemma source_at_absent:
  "key \<notin> fst ` set nexts \<Longrightarrow> source_at nexts key = Exhausted"
  by (induction nexts) (auto simp: source_at_def)

lemma amerge_order:
  assumes "distinct (map fst nexts)"
    and "amerge sched nexts = (out, rest)"
  shows "source_at nexts key = prepend (items_of key out) (source_at rest key)"
  using assms
proof (induction sched arbitrary: nexts out)
  case Nil
  then show ?case by (simp add: items_of_def)
next
  case (Cons i sched)
  show ?case
  proof (cases rule: amerge_round_cases [of nexts i])
    case outside
    then show ?thesis using Cons by simp
  next
    case (item pre k x s post)
    obtain out' where out': "amerge sched (pre @ (k, s) # post) = (out', rest)"
      and out: "out = (k, x) # out'"
      using Cons.prems(2) item(3) by (auto split: prod.splits)
    have d: "distinct (map fst (pre @ (k, s) # post))"
      using Cons.prems(1) unfolding item(1) by simp
    have ih: "source_at (pre @ (k, s) # post) key =
        prepend (items_of key out') (source_at rest key)"
      using Cons.IH [OF d out'] .
    have fresh: "k \<notin> fst ` set pre"
      using d by auto
    show ?thesis
    proof (cases "key = k")
      case True
      then show ?thesis
        using ih fresh unfolding item(1) out
        by (simp add: source_at_here items_of_def)
    next
      case False
      then show ?thesis
        using ih unfolding item(1) out
        by (simp add: source_at_elsewhere items_of_def)
    qed
  next
    case (dropped pre k post)
    have run: "amerge sched (pre @ post) = (out, rest)"
      using Cons.prems(2) dropped(3) by simp
    have d: "distinct (map fst (pre @ post))"
      using Cons.prems(1) unfolding dropped(1) by simp
    have ih: "source_at (pre @ post) key = prepend (items_of key out) (source_at rest key)"
      using Cons.IH [OF d run] .
    have fresh: "k \<notin> fst ` set pre" "k \<notin> fst ` set (pre @ post)"
      using Cons.prems(1) unfolding dropped(1) by auto
    show ?thesis
    proof (cases "key = k")
      case True
      then show ?thesis
        using ih fresh unfolding dropped(1)
        by (simp add: source_at_here source_at_absent)
    next
      case False
      then show ?thesis
        using ih unfolding dropped(1) by (simp add: source_at_elsewhere)
    qed
  qed
qed

subsection \<open>The number of items\<close>

text \<open>With every source given by the list of its items, the items yielded so far and
  the items still to come add up to all the items, round after round.\<close>

lemma amerge_count:
  assumes "amerge sched (map (\<lambda>p. (fst p, source_of (snd p))) srcs) = (out, rest)"
  shows "\<exists>srcs'. rest = map (\<lambda>p. (fst p, source_of (snd p))) srcs'
           \<and> length out + sum_list (map (\<lambda>p. length (snd p)) srcs') =
               sum_list (map (\<lambda>p. length (snd p)) srcs)"
  using assms
proof (induction sched arbitrary: srcs out)
  case Nil
  then show ?case by auto
next
  case (Cons i sched)
  let ?f = "\<lambda>p. (fst p, source_of (snd p))"
  let ?n = "\<lambda>l. sum_list (map (\<lambda>p. length (snd p)) l)"
  show ?case
  proof (cases "i < length srcs")
    case False
    then have "amerge sched (map ?f srcs) = (out, rest)"
      using Cons.prems by (simp add: amerge_round_outside)
    then show ?thesis using Cons.IH by blast
  next
    case True
    obtain k xs where p: "srcs ! i = (k, xs)" by (cases "srcs ! i")
    obtain pre post where srcs: "srcs = pre @ (k, xs) # post" and len: "length pre = i"
    proof
      show "srcs = take i srcs @ (k, xs) # drop (Suc i) srcs"
        unfolding p [symmetric] using True by (rule id_take_nth_drop)
      show "length (take i srcs) = i"
        using True by simp
    qed
    have len': "length (map ?f pre) = i"
      using len by simp
    show ?thesis
    proof (cases xs)
      case Nil
      have "amerge_round i (map ?f pre @ (k, Exhausted) # map ?f post) =
          (None, map ?f pre @ map ?f post)"
        unfolding len' [symmetric] by (rule amerge_round_Exhausted)
      then have "amerge sched (map ?f (pre @ post)) = (out, rest)"
        using Cons.prems unfolding srcs Nil by simp
      from Cons.IH [OF this] obtain srcs' where
        "rest = map ?f srcs'" "length out + ?n srcs' = ?n (pre @ post)"
        by blast
      then show ?thesis
        unfolding srcs Nil by auto
    next
      case (Cons x xs')
      have "amerge_round i (map ?f pre @ (k, Item x (source_of xs')) # map ?f post) =
          (Some (k, x), map ?f pre @ (k, source_of xs') # map ?f post)"
        unfolding len' [symmetric] by (rule amerge_round_Item)
      then obtain out' where out: "out = (k, x) # out'"
        and run: "amerge sched (map ?f (pre @ (k, xs') # post)) = (out', rest)"
        using Cons.prems unfolding srcs Cons by (auto split: prod.splits)
      from Cons.IH [OF run] obtain srcs' where
        "rest = map ?f srcs'" "length out' + ?n srcs' = ?n (pre @ (k, xs') # post)"
        by blast
      then show ?thesis
        unfolding srcs Cons out by auto
    qed
  qed
qed

section \<open>The claims\<close>

subsection \<open>Arming the executor\<close>

text \<open>
  C3. \<^verbatim>\<open>add_tool_call\<close> (arm) holds one call at a time. While the future holds a call
  that \<^verbatim>\<open>output_iterator\<close> has not picked up, any further arm raises the
  \<^verbatim>\<open>ValueError\<close> of the source and changes nothing, the held call included; an arm on
  an empty future is accepted and is then the held call; once \<^verbatim>\<open>output_iterator\<close>
  has handled the trigger task the future is empty again, and the next arm is
  accepted. As this holds in every state, it holds along every sequence of arms.
\<close>

theorem add_tool_call_single_slot:
  "(trigger_future st = Some c \<longrightarrow>
      add_tool_call c' st = (st, Some (ValueError ''Tool call adding already in progress'')))
   \<and> (trigger_future st = None \<longrightarrow>
      add_tool_call c' st = (st\<lparr>trigger_future := Some c'\<rparr>, None))
   \<and> (trigger_future st = Some c \<and> pending_out st = None \<longrightarrow>
      trigger_future (on_trigger_done lib tbn st) = None \<and>
      add_tool_call c' (on_trigger_done lib tbn st) =
        ((on_trigger_done lib tbn st)\<lparr>trigger_future := Some c'\<rparr>, None))"
proof -
  have reset: "trigger_future (on_trigger_done lib tbn st) = None"
    if "trigger_future st = Some c" "pending_out st = None"
    using that by (simp add: on_trigger_done_def Let_def split: sum.splits)
  show ?thesis
    using reset by (simp add: add_tool_call_def)
qed

theorem add_tool_call_single_slot_witness:
  "add_tool_call (example_call ''c2'' ''echo'' ''{}'')
       (initial_session\<lparr>trigger_future := Some (example_call ''c1'' ''echo'' ''{}'')\<rparr>) =
     (initial_session\<lparr>trigger_future := Some (example_call ''c1'' ''echo'' ''{}'')\<rparr>,
      Some (ValueError ''Tool call adding already in progress''))
   \<and> add_tool_call (example_call ''c1'' ''echo'' ''{}'') initial_session =
     (initial_session\<lparr>trigger_future := Some (example_call ''c1'' ''echo'' ''{}'')\<rparr>, None)
   \<and> trigger_future (on_trigger_done example_lib [(''echo'', echo_tool)]
         (initial_session\<lparr>trigger_future := Some (example_call ''c1'' ''echo'' ''{}'')\<rparr>)) = None
   \<and> add_tool_call (example_call ''c2'' ''echo'' ''{}'')
         (on_trigger_done example_lib [(''echo'', echo_tool)]
           (initial_session\<lparr>trigger_future := Some (example_call ''c1'' ''echo'' ''{}'')\<rparr>)) =
       ((on_trigger_done example_lib [(''echo'', echo_tool)]
           (initial_session\<lparr>trigger_future := Some (example_call ''c1'' ''echo'' ''{}'')\<rparr>))
         \<lparr>trigger_future := Some (example_call ''c2'' ''echo'' ''{}'')\<rparr>, None)"
  using add_tool_call_single_slot
    [of "initial_session\<lparr>trigger_future := Some (example_call ''c1'' ''echo'' ''{}'')\<rparr>"
        "example_call ''c1'' ''echo'' ''{}''" "example_call ''c2'' ''echo'' ''{}''"
        example_lib "[(''echo'', echo_tool)]"]
    add_tool_call_single_slot
    [of initial_session JNull "example_call ''c1'' ''echo'' ''{}''"]
  by (simp add: initial_session_def)

subsection \<open>An arm while a call is held, seen from the merged loop\<close>

text \<open>
  C2, as amended. When the backend sends a
  \<^verbatim>\<open>response.function_call_arguments.done\<close> event while the future still holds a
  call, \<^verbatim>\<open>add_tool_call\<close> raises and nothing in \<^verbatim>\<open>aconnect\<close> catches it: the
  \<^verbatim>\<open>ValueError\<close> leaves the merged loop, which handles no later event. For that event
  only the \<^verbatim>\<open>print\<close> has happened: nothing was sent to the backend or to the sink,
  and the held call is the one it was.
\<close>

theorem arm_conflict_ends_session:
  assumes "trigger_future st = Some c"
    and "subscript data ''type'' = Inr (JStr ''response.function_call_arguments.done'')"
  shows "session_step lib tbn (OutputSpeaker data) st =
           (print [JStr ''function_call:'', data] st,
            Some (ValueError ''Tool call adding already in progress''))
       \<and> aconnect_loop lib tbn (OutputSpeaker data # rest) st =
           (print [JStr ''function_call:'', data] st,
            Some (ValueError ''Tool call adding already in progress''))
       \<and> sent (print [JStr ''function_call:'', data] st) = sent st
       \<and> sink (print [JStr ''function_call:'', data] st) = sink st
       \<and> trigger_future (print [JStr ''function_call:'', data] st) = Some c"
proof -
  obtain kvs where d: "data = JObj kvs"
    using subscript_Inr_dict [OF assms(2)] by blast
  have held: "trigger_future (print [JStr ''function_call:'', data] st) = Some c"
    using assms(1) by (simp add: print_def)
  have step: "session_step lib tbn (OutputSpeaker data) st =
      (print [JStr ''function_call:'', data] st,
       Some (ValueError ''Tool call adding already in progress''))"
    using assms(2) held unfolding d
    by (simp add: session_step_def on_item_dict route_def on_output_speaker_def
        add_tool_call_def)
  show ?thesis
    using step held by (simp add: print_def)
qed

theorem arm_conflict_ends_session_witness:
  "aconnect_loop example_lib [(''echo'', echo_tool)]
       [OutputSpeaker (example_call ''c0'' ''echo'' ''{}''), TriggerDone, ToolDone 0,
        OutputSpeaker (example_call ''c1'' ''echo'' ''{}''),
        OutputSpeaker (example_call ''c2'' ''echo'' ''{}''),
        InputMic (JStr ''hello'')]
       initial_session =
     (\<lparr>trigger_future = Some (example_call ''c1'' ''echo'' ''{}''), tasks = [],
       pending_out = Some (Inr (function_call_output (JStr ''c0'') ''{}'')),
       sent = [], sink = [],
       stdout = [[JStr ''function_call:'', example_call ''c0'' ''echo'' ''{}''],
                 [JStr ''function_call:'', example_call ''c1'' ''echo'' ''{}''],
                 [JStr ''function_call:'', example_call ''c2'' ''echo'' ''{}'']]\<rparr>,
      Some (ValueError ''Tool call adding already in progress''))"
proof -
  let ?tbn = "[(''echo'', echo_tool)]"
  let ?c0 = "example_call ''c0'' ''echo'' ''{}''"
  let ?c1 = "example_call ''c1'' ''echo'' ''{}''"
  let ?c2 = "example_call ''c2'' ''echo'' ''{}''"
  let ?st = "\<lparr>trigger_future = Some ?c1, tasks = [],
       pending_out = Some (Inr (function_call_output (JStr ''c0'') ''{}'')),
       sent = [], sink = [],
       stdout = [[JStr ''function_call:'', ?c0], [JStr ''function_call:'', ?c1]]\<rparr>"
  have before: "aconnect_loop example_lib ?tbn
      [OutputSpeaker ?c0, TriggerDone, ToolDone 0, OutputSpeaker ?c1] initial_session =
      (?st, None)"
    by (simp add: run_defs example_defs)
  have held: "trigger_future ?st = Some ?c1"
    by simp
  have type: "subscript ?c2 ''type'' = Inr (JStr ''response.function_call_arguments.done'')"
    by (simp add: example_call_def)
  have "aconnect_loop example_lib ?tbn
      ([OutputSpeaker ?c0, TriggerDone, ToolDone 0, OutputSpeaker ?c1]
        @ [OutputSpeaker ?c2, InputMic (JStr ''hello'')]) initial_session =
      (print [JStr ''function_call:'', ?c2] ?st,
       Some (ValueError ''Tool call adding already in progress''))"
    unfolding aconnect_loop_append before
    using arm_conflict_ends_session [OF held type, of example_lib ?tbn "[InputMic (JStr ''hello'')]"]
    by simp
  then show ?thesis
    by (simp add: print_def)
qed

text \<open>
  C2 as it is written fails. With one tool registered, a first call is armed and
  dispatched and its tool finishes: \<^verbatim>\<open>output_iterator\<close> has yielded the result and is
  suspended at its \<^verbatim>\<open>yield\<close> until the loop asks for its next item. Before the loop
  does, two more \<^verbatim>\<open>response.function_call_arguments.done\<close> events arrive from the
  backend. The first is armed; nothing can empty the future while the generator is
  suspended, so the second meets the held call. The session ends with the
  \<^verbatim>\<open>ValueError\<close>; the backend has been sent the \<^verbatim>\<open>session.update\<close> of the start and
  nothing else, so no error-tagged tool result, not even the result of the first
  call, which is still waiting, and the text input that follows is never handled.
\<close>

theorem arm_conflict_counterexample:
  "snd (aconnect (example_agent [echo_tool]) example_lib
         [OutputSpeaker (example_call ''c0'' ''echo'' ''{}''), TriggerDone, ToolDone 0,
          OutputSpeaker (example_call ''c1'' ''echo'' ''{}''),
          OutputSpeaker (example_call ''c2'' ''echo'' ''{}''),
          InputMic (JStr ''hello'')]) =
     Some (ValueError ''Tool call adding already in progress'')
   \<and> sent (fst (aconnect (example_agent [echo_tool]) example_lib
         [OutputSpeaker (example_call ''c0'' ''echo'' ''{}''), TriggerDone, ToolDone 0,
          OutputSpeaker (example_call ''c1'' ''echo'' ''{}''),
          OutputSpeaker (example_call ''c2'' ''echo'' ''{}''),
          InputMic (JStr ''hello'')])) =
     [session_update None [(''echo'', echo_tool)]]
   \<and> pending_out (fst (aconnect (example_agent [echo_tool]) example_lib
         [OutputSpeaker (example_call ''c0'' ''echo'' ''{}''), TriggerDone, ToolDone 0,
          OutputSpeaker (example_call ''c1'' ''echo'' ''{}'')])) =
     Some (Inr (function_call_output (JStr ''c0'') ''{}''))
   \<and> trigger_future (fst (aconnect (example_agent [echo_tool]) example_lib
         [OutputSpeaker (example_call ''c0'' ''echo'' ''{}''), TriggerDone, ToolDone 0,
          OutputSpeaker (example_call ''c1'' ''echo'' ''{}''),
          OutputSpeaker (example_call ''c2'' ''echo'' ''{}''),
          InputMic (JStr ''hello'')])) =
     Some (example_call ''c1'' ''echo'' ''{}'')"
  by (simp add: run_defs example_defs)

subsection \<open>Plain text on the input stream\<close>

text \<open>
  C5. A string \<open>s\<close> from the input stream that \<^verbatim>\<open>json.loads\<close> rejects with
  \<^verbatim>\<open>JSONDecodeError\<close> makes the loop send the backend two events, in this order: the
  \<^verbatim>\<open>conversation.item.create\<close> whose item is a message of role \<^verbatim>\<open>user\<close> with \<open>s\<close> as
  its one \<^verbatim>\<open>input_text\<close>, then the \<^verbatim>\<open>response.create\<close> that asks for the modality
  \<^verbatim>\<open>text\<close> with the instructions \<^verbatim>\<open>Please respond concisely.\<close> Nothing goes to the
  output sink and the loop goes on.
\<close>

theorem plain_text_input:
  assumes "loads lib s = Inl JSONDecodeError"
  shows "snd (session_step lib tbn (InputMic (JStr s)) st) = None
       \<and> sent (fst (session_step lib tbn (InputMic (JStr s)) st)) =
           sent st @
           [JObj [(''type'', JStr ''conversation.item.create''),
                  (''item'',
                   JObj [(''id'', JStr ''text_input''),
                         (''type'', JStr ''message''),
                         (''role'', JStr ''user''),
                         (''content'', JArr [JObj [(''type'', JStr ''input_text''),
                                                  (''text'', JStr s)]])])],
            JObj [(''type'', JStr ''response.create''),
                  (''response'',
                   JObj [(''modalities'', JArr [JStr ''text'']),
                         (''instructions'', JStr ''Please respond concisely.'')])]]
       \<and> sink (fst (session_step lib tbn (InputMic (JStr s)) st)) = sink st
       \<and> aconnect_loop lib tbn (InputMic (JStr s) # rest) st =
           aconnect_loop lib tbn rest (fst (session_step lib tbn (InputMic (JStr s)) st))"
  using assms
  by (simp add: session_step_def on_item_def route_def on_text_def Let_def
      model_send_def print_def text_input_item_def response_create_text_def)

theorem plain_text_input_witness:
  "snd (session_step example_lib [] (InputMic (JStr ''hello'')) initial_session) = None
   \<and> sent (fst (session_step example_lib [] (InputMic (JStr ''hello'')) initial_session)) =
       [JObj [(''type'', JStr ''conversation.item.create''),
              (''item'',
               JObj [(''id'', JStr ''text_input''),
                     (''type'', JStr ''message''),
                     (''role'', JStr ''user''),
                     (''content'', JArr [JObj [(''type'', JStr ''input_text''),
                                              (''text'', JStr ''hello'')]])])],
        JObj [(''type'', JStr ''response.create''),
              (''response'',
               JObj [(''modalities'', JArr [JStr ''text'']),
                     (''instructions'', JStr ''Please respond concisely.'')])]]
   \<and> sink (fst (session_step example_lib [] (InputMic (JStr ''hello'')) initial_session)) = []"
  using plain_text_input [of example_lib "''hello''" "[]" initial_session "[]"]
  by (simp add: example_lib_def example_loads_def initial_session_def)

subsection \<open>Backend events of an unknown type\<close>

text \<open>
  C8. A backend event whose type is none of the types the \<^verbatim>\<open>elif\<close> chain names and
  is not in \<^verbatim>\<open>EVENTS_TO_IGNORE\<close> is printed as unhandled and nothing else happens: the
  loop goes on with the events that follow, from a state that differs by that line of
  output only. An event type is a string; the theorem covers every type that can be
  looked up in a set (a list or a dict cannot).
\<close>

theorem unrecognized_event_ignored:
  assumes "subscript data ''type'' = Inr t"
    and "hashable t"
    and "t \<notin> JStr ` {''response.audio.delta'', ''response.audio_buffer.speech_started'',
            ''error'', ''response.function_call_arguments.done'',
            ''response.audio_transcript.done'',
            ''conversation.item.input_audio_transcription.completed'',
            ''response.text.done'', ''input_audio_buffer.speech_started''}"
    and "t \<notin> JStr ` set EVENTS_TO_IGNORE"
  shows "session_step lib tbn (OutputSpeaker data) st =
           (print [JStr ''Unhandled event type:'', t] st, None)
       \<and> aconnect_loop lib tbn (OutputSpeaker data # rest) st =
           aconnect_loop lib tbn rest (print [JStr ''Unhandled event type:'', t] st)"
proof -
  obtain kvs where d: "data = JObj kvs"
    using subscript_Inr_dict [OF assms(1)] by blast
  have ign: "in_EVENTS_TO_IGNORE t = Inr False"
    using assms(2,4) by (cases t) (auto simp: in_EVENTS_TO_IGNORE_def)
  have step: "session_step lib tbn (OutputSpeaker data) st =
      (print [JStr ''Unhandled event type:'', t] st, None)"
    using assms(1,3) ign unfolding d
    by (simp add: session_step_def on_item_dict route_def on_output_speaker_def)
  show ?thesis
    using step by simp
qed

theorem unrecognized_event_ignored_witness:
  "aconnect_loop example_lib []
       [OutputSpeaker (JObj [(''type'', JStr ''response.future_event'')]),
        InputMic (JStr ''hello'')] initial_session =
     aconnect_loop example_lib [] [InputMic (JStr ''hello'')]
       (print [JStr ''Unhandled event type:'', JStr ''response.future_event''] initial_session)
   \<and> sent (fst (aconnect_loop example_lib []
       [OutputSpeaker (JObj [(''type'', JStr ''response.future_event'')]),
        InputMic (JStr ''hello'')] initial_session)) =
     [text_input_item (JStr ''hello''), response_create_text]"
  using unrecognized_event_ignored
    [of "JObj [(''type'', JStr ''response.future_event'')]" "JStr ''response.future_event''"
        example_lib "[]" initial_session "[InputMic (JStr ''hello'')]"]
  by (simp add: EVENTS_TO_IGNORE_def session_step_def on_item_def route_def on_text_def
      Let_def model_send_def print_def example_lib_def example_loads_def initial_session_def)

subsection \<open>Decodable input that is not an event\<close>

text \<open>
  C9. A string from the input stream that \<^verbatim>\<open>json.loads\<close> decodes is routed as an
  event, and the first thing the branch does is read \<^verbatim>\<open>data["type"]\<close>. The step
  succeeds exactly when the decoded value is a dict with the key \<^verbatim>\<open>type\<close>; for any
  other value (a string, a number, a list, a dict without the key) it raises
  \<^verbatim>\<open>TypeError\<close> or \<^verbatim>\<open>KeyError\<close> before anything is sent, and the exception ends the
  loop.
\<close>

theorem decoded_input_needs_type:
  assumes "loads lib s = Inr v"
  shows "(snd (session_step lib tbn (InputMic (JStr s)) st) = None) =
           (\<exists>kvs t. v = JObj kvs \<and> map_of kvs ''type'' = Some t)
       \<and> ((\<nexists>kvs t. v = JObj kvs \<and> map_of kvs ''type'' = Some t) \<longrightarrow>
            (\<exists>e. (e = TypeError \<or> e = KeyError ''type'')
               \<and> session_step lib tbn (InputMic (JStr s)) st = (st, Some e)
               \<and> aconnect_loop lib tbn (InputMic (JStr s) # rest) st = (st, Some e)))"
proof -
  have step: "session_step lib tbn (InputMic (JStr s)) st = on_input_mic v st"
    using assms by (simp add: session_step_def on_item_def route_def)
  show ?thesis
  proof (cases "subscript v ''type''")
    case (Inl e)
    then have e: "e = TypeError \<or> e = KeyError ''type''"
      by (rule subscript_Inl_cases)
    have no: "\<nexists>kvs t. v = JObj kvs \<and> map_of kvs ''type'' = Some t"
      using Inl by (auto split: option.splits)
    have "session_step lib tbn (InputMic (JStr s)) st = (st, Some e)"
      using Inl step by (simp add: on_input_mic_def)
    then show ?thesis
      using e no by auto
  next
    case (Inr t)
    then obtain kvs where "v = JObj kvs" "map_of kvs ''type'' = Some t"
      using subscript_Inr_dict by blast
    moreover have "snd (session_step lib tbn (InputMic (JStr s)) st) = None"
      using Inr step by (simp add: on_input_mic_def Let_def)
    ultimately show ?thesis by auto
  qed
qed

theorem decoded_input_needs_type_witness:
  "aconnect_loop example_lib [] [InputMic (JStr ''42''), InputMic (JStr ''hello'')]
       initial_session = (initial_session, Some TypeError)
   \<and> aconnect_loop example_lib [] [InputMic (JStr ''{}''), InputMic (JStr ''hello'')]
       initial_session = (initial_session, Some (KeyError ''type''))"
  using decoded_input_needs_type
    [of example_lib "''42''" "JInt 42" "[]" initial_session "[InputMic (JStr ''hello'')]"]
    decoded_input_needs_type
    [of example_lib "''{}''" "JObj []" "[]" initial_session "[InputMic (JStr ''hello'')]"]
  by (simp add: example_lib_def example_loads_def session_step_def on_item_def route_def
      on_input_mic_def)

subsection \<open>Tool results in the merged loop\<close>

text \<open>
  C6. Whatever run of the session has left an item of \<^verbatim>\<open>output_iterator\<close> waiting for
  the loop, the item is a \<open>function_call_output\<close>, an event of type
  \<^verbatim>\<open>conversation.item.create\<close>; the loop takes it without raising, sends it to the
  backend as it is and then sends a \<^verbatim>\<open>response.create\<close>; and when the output string
  decodes to a dict whose \<^verbatim>\<open>return_direct\<close> is \<^verbatim>\<open>true\<close>, the output string itself,
  unchanged, is the one chunk written to the output sink.
\<close>

theorem tool_result_forwarded:
  assumes "aconnect self lib sched = (st, None)"
    and "pending_out st = Some (Inr ev)"
  shows "\<exists>call_id out st'.
           ev = function_call_output call_id out
         \<and> subscript ev ''type'' = Inr (JStr ''conversation.item.create'')
         \<and> subscript response_create_empty ''type'' = Inr (JStr ''response.create'')
         \<and> aconnect self lib (sched @ [ToolOutputs]) = (st', None)
         \<and> sent st' = sent st @ [ev, response_create_empty]
         \<and> (\<forall>kvs. loads lib out = Inr (JObj kvs)
                  \<and> map_of kvs ''return_direct'' = Some (JBool True)
               \<longrightarrow> sink st' = sink st @ [JStr out])"
proof -
  let ?tbn = "tools_by_name_of (tools self)"
  obtain call_id out where ev: "ev = function_call_output call_id out"
    using aconnect_shape [of self lib sched ev] assms by auto
  define st' where "st' = fst (session_step lib ?tbn ToolOutputs st)"
  have step: "session_step lib ?tbn ToolOutputs st = (st', None)"
    using assms(2) unfolding ev st'_def by (simp add: session_step_ToolOutputs)
  have run: "aconnect self lib (sched @ [ToolOutputs]) = (st', None)"
    using assms(1) step by (simp add: aconnect_def Let_def aconnect_loop_append)
  have st'_eq: "st' = return_direct_check lib (JStr out)
        (model_send response_create_empty
          (model_send ev (print [JStr ''tool output:'', ev] (st\<lparr>pending_out := None\<rparr>))))"
    using assms(2) unfolding ev st'_def by (simp add: session_step_ToolOutputs)
  have sent: "sent st' = sent st @ [ev, response_create_empty]"
    unfolding st'_eq by (simp add: return_direct_check_frame model_send_def print_def)
  have sink: "sink st' = sink st @ [JStr out]"
    if "loads lib out = Inr (JObj kvs)" "map_of kvs ''return_direct'' = Some (JBool True)"
    for kvs
    unfolding st'_eq using that
    by (simp add: return_direct_check_def send_output_chunk_def model_send_def print_def)
  show ?thesis
    using ev run sent sink by (auto simp: response_create_empty_def)
qed

theorem tool_result_forwarded_witness:
  "\<exists>st'. aconnect (example_agent [echo_tool]) example_lib
       [OutputSpeaker (example_call ''c1'' ''echo'' ''{\"return_direct\": true, \"value\": \"X\"}''),
        TriggerDone, ToolDone 0, ToolOutputs] = (st', None)
      \<and> sent st' =
          [session_update None [(''echo'', echo_tool)],
           function_call_output (JStr ''c1'') ''{\"return_direct\": true, \"value\": \"X\"}'',
           response_create_empty]
      \<and> sink st' = [JStr ''{\"return_direct\": true, \"value\": \"X\"}'']"
proof -
  let ?call = "example_call ''c1'' ''echo'' ''{\"return_direct\": true, \"value\": \"X\"}''"
  let ?sched = "[OutputSpeaker ?call, TriggerDone, ToolDone 0]"
  let ?st = "\<lparr>trigger_future = None, tasks = [],
       pending_out = Some (Inr (function_call_output (JStr ''c1'')
                                  ''{\"return_direct\": true, \"value\": \"X\"}'')),
       sent = [session_update None [(''echo'', echo_tool)]], sink = [],
       stdout = [[JStr ''function_call:'', ?call]]\<rparr>"
  have run: "aconnect (example_agent [echo_tool]) example_lib ?sched = (?st, None)"
    by (simp add: run_defs example_defs)
  have pend: "pending_out ?st =
      Some (Inr (function_call_output (JStr ''c1'') ''{\"return_direct\": true, \"value\": \"X\"}''))"
    by simp
  have dec: "loads example_lib ''{\"return_direct\": true, \"value\": \"X\"}'' =
      Inr (JObj [(''return_direct'', JBool True), (''value'', JStr ''X'')])"
    by (simp add: example_defs)
  from tool_result_forwarded [OF run pend] dec
  show ?thesis
    by (auto simp: function_call_output_def)
qed

text \<open>
  C10, as amended. The return-direct check never raises and never stops the two sends:
  whatever run has left an item of \<^verbatim>\<open>output_iterator\<close> waiting, the loop takes it
  without raising and sends the backend the item and the \<^verbatim>\<open>response.create\<close>. The
  check tests the truth value of the field, as Python's \<^verbatim>\<open>if\<close> does: when decoding
  the output string raises anything, or gives a value that is not a dict, or a dict
  whose \<^verbatim>\<open>return_direct\<close> is absent or falsy (\<^verbatim>\<open>false\<close>, \<^verbatim>\<open>null\<close>, \<^verbatim>\<open>0\<close>, an empty
  string, list or dict), nothing is written to the output sink.
\<close>

theorem return_direct_best_effort:
  assumes "aconnect self lib sched = (st, None)"
    and "pending_out st = Some (Inr ev)"
  shows "\<exists>call_id out st'.
           ev = function_call_output call_id out
         \<and> aconnect self lib (sched @ [ToolOutputs]) = (st', None)
         \<and> sent st' = sent st @ [ev, response_create_empty]
         \<and> ((\<nexists>kvs r. loads lib out = Inr (JObj kvs)
                  \<and> map_of kvs ''return_direct'' = Some r \<and> truthy r)
               \<longrightarrow> sink st' = sink st)"
proof -
  let ?tbn = "tools_by_name_of (tools self)"
  obtain call_id out where ev: "ev = function_call_output call_id out"
    using aconnect_shape [of self lib sched ev] assms by auto
  define st' where "st' = fst (session_step lib ?tbn ToolOutputs st)"
  have step: "session_step lib ?tbn ToolOutputs st = (st', None)"
    using assms(2) unfolding ev st'_def by (simp add: session_step_ToolOutputs)
  have run: "aconnect self lib (sched @ [ToolOutputs]) = (st', None)"
    using assms(1) step by (simp add: aconnect_def Let_def aconnect_loop_append)
  have st'_eq: "st' = return_direct_check lib (JStr out)
        (model_send response_create_empty
          (model_send ev (print [JStr ''tool output:'', ev] (st\<lparr>pending_out := None\<rparr>))))"
    using assms(2) unfolding ev st'_def by (simp add: session_step_ToolOutputs)
  have sent: "sent st' = sent st @ [ev, response_create_empty]"
    unfolding st'_eq by (simp add: return_direct_check_frame model_send_def print_def)
  have sink: "sink st' = sink st"
    if no: "\<nexists>kvs r. loads lib out = Inr (JObj kvs)
              \<and> map_of kvs ''return_direct'' = Some r \<and> truthy r"
  proof (cases "loads lib out")
    case (Inl e)
    then show ?thesis
      unfolding st'_eq by (simp add: return_direct_check_def model_send_def print_def)
  next
    case (Inr v)
    show ?thesis
    proof (cases v)
      case (JObj kvs)
      then show ?thesis
        using Inr no unfolding st'_eq
        by (cases "map_of kvs ''return_direct''")
          (simp_all add: return_direct_check_def send_output_chunk_def model_send_def
            print_def)
    qed (use Inr in \<open>simp_all add: st'_eq return_direct_check_def model_send_def print_def\<close>)
  qed
  show ?thesis
    using ev run sent sink by blast
qed

theorem return_direct_best_effort_witness:
  "\<exists>st'. aconnect (example_agent [echo_tool]) example_lib
       [OutputSpeaker (example_call ''c1'' ''echo'' ''{}''),
        TriggerDone, ToolDone 0, ToolOutputs] = (st', None)
      \<and> sent st' =
          [session_update None [(''echo'', echo_tool)],
           function_call_output (JStr ''c1'') ''{}'',
           response_create_empty]
      \<and> sink st' = []"
proof -
  let ?call = "example_call ''c1'' ''echo'' ''{}''"
  let ?sched = "[OutputSpeaker ?call, TriggerDone, ToolDone 0]"
  let ?st = "\<lparr>trigger_future = None, tasks = [],
       pending_out = Some (Inr (function_call_output (JStr ''c1'') ''{}'')),
       sent = [session_update None [(''echo'', echo_tool)]], sink = [],
       stdout = [[JStr ''function_call:'', ?call]]\<rparr>"
  have run: "aconnect (example_agent [echo_tool]) example_lib ?sched = (?st, None)"
    by (simp add: run_defs example_defs)
  have pend: "pending_out ?st = Some (Inr (function_call_output (JStr ''c1'') ''{}''))"
    by simp
  have dec: "loads example_lib ''{}'' = Inr (JObj [])"
    by (simp add: example_defs)
  from return_direct_best_effort [OF run pend] dec
  show ?thesis
    by (auto simp: function_call_output_def)
qed

text \<open>
  C10 as it is written fails: the tool returns \<^verbatim>\<open>{"return_direct": "yes"}\<close>. The
  output string decodes to a dict whose \<^verbatim>\<open>return_direct\<close> is the string \<^verbatim>\<open>yes\<close>, not
  \<^verbatim>\<open>true\<close>, yet the output string is written to the sink: a non-empty string is
  truthy.
\<close>

theorem return_direct_counterexample:
  "loads example_lib ''{\"return_direct\": \"yes\"}'' =
      Inr (JObj [(''return_direct'', JStr ''yes'')])
   \<and> JStr ''yes'' \<noteq> JBool True
   \<and> snd (aconnect (example_agent [echo_tool]) example_lib
       [OutputSpeaker (example_call ''c1'' ''echo'' ''{\"return_direct\": \"yes\"}''),
        TriggerDone, ToolDone 0, ToolOutputs]) = None
   \<and> sink (fst (aconnect (example_agent [echo_tool]) example_lib
       [OutputSpeaker (example_call ''c1'' ''echo'' ''{\"return_direct\": \"yes\"}''),
        TriggerDone, ToolDone 0, ToolOutputs])) = [JStr ''{\"return_direct\": \"yes\"}'']"
  by (simp add: run_defs example_defs function_call_output_def)

subsection \<open>Calls the executor cannot start\<close>

text \<open>
  C4. An armed call that has a name and a \<^verbatim>\<open>call_id\<close>, and whose tool is not
  registered or whose argument string \<^verbatim>\<open>json.loads\<close> rejects with
  \<^verbatim>\<open>JSONDecodeError\<close>, makes \<^verbatim>\<open>output_iterator\<close> yield an event of type
  \<^verbatim>\<open>conversation.item.create\<close> whose item is a \<^verbatim>\<open>function_call_output\<close> with the
  \<^verbatim>\<open>call_id\<close> of the call (as its \<^verbatim>\<open>id\<close> too) and, as output, \<^verbatim>\<open>Error: \<close> followed
  by the message of the \<^verbatim>\<open>ValueError\<close>: that the tool was not found, with the names
  of the registered ones, or that the arguments could not be parsed, with the
  argument string. The future is empty again, the loop takes the item without
  raising, sends it to the backend with a \<^verbatim>\<open>response.create\<close>, and goes on with what
  follows.
\<close>

theorem dispatch_errors_become_results:
  assumes "trigger_future st = Some tool_call"
    and "pending_out st = None"
    and "subscript tool_call ''name'' = Inr nm"
    and "subscript tool_call ''call_id'' = Inr call_id"
    and "(tools_get tbn nm = Inr None
           \<and> msg = ''tool '' @ py_str lib nm @ '' not found. Must be one of '' @
                     py_str lib (JArr (map (JStr \<circ> fst) tbn)))
         \<or> (\<exists>t a. tools_get tbn nm = Inr (Some t)
                \<and> subscript tool_call ''arguments'' = Inr (JStr a)
                \<and> loads lib a = Inl JSONDecodeError
                \<and> msg = ''failed to parse arguments `'' @ a @ ''`. Must be valid JSON.'')"
  shows "\<exists>ev st'.
           ev = JObj [(''type'', JStr ''conversation.item.create''),
                      (''item'', JObj [(''id'', call_id),
                                       (''call_id'', call_id),
                                       (''type'', JStr ''function_call_output''),
                                       (''output'', JStr (''Error: '' @ msg))])]
         \<and> pending_out (on_trigger_done lib tbn st) = Some (Inr ev)
         \<and> trigger_future (on_trigger_done lib tbn st) = None
         \<and> aconnect_loop lib tbn [TriggerDone, ToolOutputs] st = (st', None)
         \<and> sent st' =
             sent st @ [ev, JObj [(''type'', JStr ''response.create''), (''response'', JObj [])]]
         \<and> aconnect_loop lib tbn (TriggerDone # ToolOutputs # rest) st =
             aconnect_loop lib tbn rest st'"
proof -
  have task: "create_tool_call_task lib tbn tool_call = Inl (ValueError msg)"
    using assms(3,5) by (auto simp: create_tool_call_task_def)
  let ?ev = "function_call_output call_id (''Error: '' @ msg)"
  let ?st1 = "on_trigger_done lib tbn st"
  have st1: "?st1 = st\<lparr>trigger_future := None, pending_out := Some (Inr ?ev)\<rparr>"
    using assms(1,2,4) task by (simp add: on_trigger_done_def)
  have pend: "pending_out ?st1 = Some (Inr ?ev)"
    by (simp add: st1)
  have sent1: "sent ?st1 = sent st"
    by (simp add: st1)
  define st' where "st' = fst (session_step lib tbn ToolOutputs ?st1)"
  note step_eq = session_step_ToolOutputs [OF pend, of lib tbn]
  have step: "session_step lib tbn ToolOutputs ?st1 = (st', None)"
    unfolding st'_def step_eq by simp
  have sent: "sent st' = sent st @ [?ev, response_create_empty]"
    unfolding st'_def step_eq using sent1
    by (simp add: return_direct_check_frame model_send_def print_def)
  have loop: "aconnect_loop lib tbn (TriggerDone # ToolOutputs # rest) st =
      aconnect_loop lib tbn rest st'" for rest
    using step by (simp add: session_step_def)
  have ev: "?ev = JObj [(''type'', JStr ''conversation.item.create''),
                      (''item'', JObj [(''id'', call_id),
                                       (''call_id'', call_id),
                                       (''type'', JStr ''function_call_output''),
                                       (''output'', JStr (''Error: '' @ msg))])]"
    by (simp add: function_call_output_def)
  have rc: "response_create_empty =
      JObj [(''type'', JStr ''response.create''), (''response'', JObj [])]"
    by (simp add: response_create_empty_def)
  have "pending_out ?st1 = Some (Inr ?ev)
      \<and> trigger_future ?st1 = None
      \<and> aconnect_loop lib tbn [TriggerDone, ToolOutputs] st = (st', None)
      \<and> sent st' = sent st @ [?ev, response_create_empty]
      \<and> aconnect_loop lib tbn (TriggerDone # ToolOutputs # rest) st =
          aconnect_loop lib tbn rest st'"
    using pend st1 loop [of "[]"] loop [of rest] sent by simp
  then show ?thesis
    unfolding ev rc by blast
qed

theorem dispatch_errors_become_results_witness:
  "(\<exists>st'. aconnect_loop example_lib [(''echo'', echo_tool)] [TriggerDone, ToolOutputs]
        (initial_session\<lparr>trigger_future := Some (example_call ''c1'' ''nope'' ''{}'')\<rparr>) =
        (st', None)
      \<and> sent st' =
          [JObj [(''type'', JStr ''conversation.item.create''),
                 (''item'',
                  JObj [(''id'', JStr ''c1''),
                        (''call_id'', JStr ''c1''),
                        (''type'', JStr ''function_call_output''),
                        (''output'',
                         JStr ''Error: tool nope not found. Must be one of ['echo']'')])],
           JObj [(''type'', JStr ''response.create''), (''response'', JObj [])]])
   \<and> (\<exists>st'. aconnect_loop example_lib [(''echo'', echo_tool)] [TriggerDone, ToolOutputs]
        (initial_session\<lparr>trigger_future := Some (example_call ''c2'' ''echo'' ''{bad'')\<rparr>) =
        (st', None)
      \<and> sent st' =
          [JObj [(''type'', JStr ''conversation.item.create''),
                 (''item'',
                  JObj [(''id'', JStr ''c2''),
                        (''call_id'', JStr ''c2''),
                        (''type'', JStr ''function_call_output''),
                        (''output'',
                         JStr ''Error: failed to parse arguments `{bad`. Must be valid JSON.'')])],
           JObj [(''type'', JStr ''response.create''), (''response'', JObj [])]])"
proof -
  let ?tbn = "[(''echo'', echo_tool)]"
  let ?c1 = "example_call ''c1'' ''nope'' ''{}''"
  let ?c2 = "example_call ''c2'' ''echo'' ''{bad''"
  let ?s1 = "initial_session\<lparr>trigger_future := Some ?c1\<rparr>"
  let ?s2 = "initial_session\<lparr>trigger_future := Some ?c2\<rparr>"
  let ?m1 = "''tool nope not found. Must be one of ['echo']''"
  let ?m2 = "''failed to parse arguments `{bad`. Must be valid JSON.''"
  have armed: "trigger_future ?s1 = Some ?c1" "trigger_future ?s2 = Some ?c2"
    by simp_all
  have running: "pending_out ?s1 = None" "pending_out ?s2 = None"
    by (simp_all add: initial_session_def)
  have nothing_sent: "sent ?s1 = []" "sent ?s2 = []"
    by (simp_all add: initial_session_def)
  have name1: "subscript ?c1 ''name'' = Inr (JStr ''nope'')"
    and id1: "subscript ?c1 ''call_id'' = Inr (JStr ''c1'')"
    and name2: "subscript ?c2 ''name'' = Inr (JStr ''echo'')"
    and id2: "subscript ?c2 ''call_id'' = Inr (JStr ''c2'')"
    by (simp_all add: example_call_def)
  have nope: "tools_get ?tbn (JStr ''nope'') = Inr None
      \<and> ?m1 = ''tool '' @ py_str example_lib (JStr ''nope'') @ '' not found. Must be one of '' @
                py_str example_lib (JArr (map (JStr \<circ> fst) ?tbn))"
    by (simp add: tools_get_def example_lib_def example_repr_def)
  have bad: "\<exists>t a. tools_get ?tbn (JStr ''echo'') = Inr (Some t)
      \<and> subscript ?c2 ''arguments'' = Inr (JStr a)
      \<and> loads example_lib a = Inl JSONDecodeError
      \<and> ?m2 = ''failed to parse arguments `'' @ a @ ''`. Must be valid JSON.''"
  proof (intro exI conjI)
    show "tools_get ?tbn (JStr ''echo'') = Inr (Some echo_tool)"
      by (simp add: tools_get_def)
    show "subscript ?c2 ''arguments'' = Inr (JStr ''{bad'')"
      by (simp add: example_call_def)
    show "loads example_lib ''{bad'' = Inl JSONDecodeError"
      by (simp add: example_lib_def example_loads_def)
    show "?m2 = ''failed to parse arguments `'' @ ''{bad'' @ ''`. Must be valid JSON.''"
      by simp
  qed
  from dispatch_errors_become_results
    [OF armed(1) running(1) name1 id1 disjI1 [OF nope], of "[]"]
  obtain ev1 st1 where
    ev1: "ev1 = JObj [(''type'', JStr ''conversation.item.create''),
                      (''item'', JObj [(''id'', JStr ''c1''),
                                       (''call_id'', JStr ''c1''),
                                       (''type'', JStr ''function_call_output''),
                                       (''output'', JStr (''Error: '' @ ?m1))])]"
    and run1: "aconnect_loop example_lib ?tbn [TriggerDone, ToolOutputs] ?s1 = (st1, None)"
    and sent1: "sent st1 = sent ?s1 @
        [ev1, JObj [(''type'', JStr ''response.create''), (''response'', JObj [])]]"
    by blast
  from dispatch_errors_become_results
    [OF armed(2) running(2) name2 id2 disjI2 [OF bad], of "[]"]
  obtain ev2 st2 where
    ev2: "ev2 = JObj [(''type'', JStr ''conversation.item.create''),
                      (''item'', JObj [(''id'', JStr ''c2''),
                                       (''call_id'', JStr ''c2''),
                                       (''type'', JStr ''function_call_output''),
                                       (''output'', JStr (''Error: '' @ ?m2))])]"
    and run2: "aconnect_loop example_lib ?tbn [TriggerDone, ToolOutputs] ?s2 = (st2, None)"
    and sent2: "sent st2 = sent ?s2 @
        [ev2, JObj [(''type'', JStr ''response.create''), (''response'', JObj [])]]"
    by blast
  have a: "sent st1 =
          [JObj [(''type'', JStr ''conversation.item.create''),
                 (''item'',
                  JObj [(''id'', JStr ''c1''),
                        (''call_id'', JStr ''c1''),
                        (''type'', JStr ''function_call_output''),
                        (''output'',
                         JStr ''Error: tool nope not found. Must be one of ['echo']'')])],
           JObj [(''type'', JStr ''response.create''), (''response'', JObj [])]]"
    unfolding sent1 nothing_sent ev1 by simp
  have b: "sent st2 =
          [JObj [(''type'', JStr ''conversation.item.create''),
                 (''item'',
                  JObj [(''id'', JStr ''c2''),
                        (''call_id'', JStr ''c2''),
                        (''type'', JStr ''function_call_output''),
                        (''output'',
                         JStr ''Error: failed to parse arguments `{bad`. Must be valid JSON.'')])],
           JObj [(''type'', JStr ''response.create''), (''response'', JObj [])]]"
    unfolding sent2 nothing_sent ev2 by simp
  show ?thesis
  proof (intro conjI)
    show "\<exists>st'. aconnect_loop example_lib ?tbn [TriggerDone, ToolOutputs] ?s1 = (st', None)
      \<and> sent st' =
          [JObj [(''type'', JStr ''conversation.item.create''),
                 (''item'',
                  JObj [(''id'', JStr ''c1''),
                        (''call_id'', JStr ''c1''),
                        (''type'', JStr ''function_call_output''),
                        (''output'',
                         JStr ''Error: tool nope not found. Must be one of ['echo']'')])],
           JObj [(''type'', JStr ''response.create''), (''response'', JObj [])]]"
      using run1 a by (intro exI [of _ st1] conjI)
    show "\<exists>st'. aconnect_loop example_lib ?tbn [TriggerDone, ToolOutputs] ?s2 = (st', None)
      \<and> sent st' =
          [JObj [(''type'', JStr ''conversation.item.create''),
                 (''item'',
                  JObj [(''id'', JStr ''c2''),
                        (''call_id'', JStr ''c2''),
                        (''type'', JStr ''function_call_output''),
                        (''output'',
                         JStr ''Error: failed to parse arguments `{bad`. Must be valid JSON.'')])],
           JObj [(''type'', JStr ''response.create''), (''response'', JObj [])]]"
      using run2 b by (intro exI [of _ st2] conjI)
  qed
qed

subsection \<open>A tool that raises\<close>

text \<open>
  C1 does not hold of the code. A registered tool raises when it is run: the call is
  armed, \<^verbatim>\<open>output_iterator\<close> starts its task, the task ends with the exception, and
  \<^verbatim>\<open>yield task.result()\<close> raises it again. It leaves \<^verbatim>\<open>output_iterator\<close>, the merge and
  \<^verbatim>\<open>aconnect\<close>: the session ends with the tool's exception, the backend has been sent
  the \<^verbatim>\<open>session.update\<close> of the start and no tool result, and the text input that
  follows is never handled.
\<close>

theorem tool_exception_ends_session:
  "snd (aconnect (example_agent [boom_tool]) example_lib
         [OutputSpeaker (example_call ''c1'' ''boom'' ''{}''),
          TriggerDone, ToolDone 0, ToolOutputs, InputMic (JStr ''hello'')]) =
     Some (OtherException ''boom'')
   \<and> sent (fst (aconnect (example_agent [boom_tool]) example_lib
         [OutputSpeaker (example_call ''c1'' ''boom'' ''{}''),
          TriggerDone, ToolDone 0, ToolOutputs, InputMic (JStr ''hello'')])) =
     [session_update None [(''boom'', boom_tool)]]
   \<and> pending_out (fst (aconnect (example_agent [boom_tool]) example_lib
         [OutputSpeaker (example_call ''c1'' ''boom'' ''{}''),
          TriggerDone, ToolDone 0])) =
     Some (Inl (OtherException ''boom''))"
  by (simp add: run_defs example_defs)

subsection \<open>The stream merger\<close>

text \<open>
  C7, for the merge as the specification describes it. The origin tags of a mapping
  are distinct. Under every schedule, at every moment, each source is the items
  yielded so far with its tag, in the order it gave them, followed by what the source
  still holds: the merged sequence keeps each source's own order. Some schedule ends
  the merged sequence exactly when every source is finite. When the sources are
  given by the lists of their items, no schedule yields more items than the lists
  hold together, and a schedule that ends the merge has yielded exactly that many:
  for each tag, the list of its source.
\<close>

theorem amerge_order_and_termination:
  assumes "distinct (map fst nexts)"
  shows "(\<forall>sched out rest key. amerge sched nexts = (out, rest) \<longrightarrow>
            source_at nexts key = prepend (items_of key out) (source_at rest key))
       \<and> ((\<exists>sched out. amerge sched nexts = (out, [])) = all_finite nexts)
       \<and> (\<forall>srcs sched out rest.
            nexts = map (\<lambda>p. (fst p, source_of (snd p))) srcs
            \<and> amerge sched nexts = (out, rest) \<longrightarrow>
              length out \<le> sum_list (map (\<lambda>p. length (snd p)) srcs)
            \<and> (rest = [] \<longrightarrow>
                  length out = sum_list (map (\<lambda>p. length (snd p)) srcs)
                \<and> (\<forall>p \<in> set srcs. items_of (fst p) out = snd p)))"
proof (intro conjI allI impI ballI)
  fix sched out rest key
  assume "amerge sched nexts = (out, rest)"
  then show "source_at nexts key = prepend (items_of key out) (source_at rest key)"
    using assms by (rule amerge_order [rotated])
next
  show "(\<exists>sched out. amerge sched nexts = (out, [])) = all_finite nexts"
    using amerge_ends_if_finite amerge_finite_if_ends by blast
next
  fix srcs sched out rest
  assume a: "nexts = map (\<lambda>p. (fst p, source_of (snd p))) srcs
      \<and> amerge sched nexts = (out, rest)"
  have run: "amerge sched (map (\<lambda>p. (fst p, source_of (snd p))) srcs) = (out, rest)"
    using a by (elim conjE) (erule subst)
  from amerge_count [OF run]
  show "length out \<le> sum_list (map (\<lambda>p. length (snd p)) srcs)"
    by auto
next
  fix srcs sched out rest
  assume a: "nexts = map (\<lambda>p. (fst p, source_of (snd p))) srcs
      \<and> amerge sched nexts = (out, rest)"
    and e: "rest = []"
  have run: "amerge sched (map (\<lambda>p. (fst p, source_of (snd p))) srcs) = (out, [])"
    using a unfolding e by (elim conjE) (erule subst)
  from amerge_count [OF run]
  show "length out = sum_list (map (\<lambda>p. length (snd p)) srcs)"
    by auto
next
  fix srcs sched out rest p
  assume a: "nexts = map (\<lambda>p. (fst p, source_of (snd p))) srcs
      \<and> amerge sched nexts = (out, rest)"
    and e: "rest = []"
    and p: "p \<in> set srcs"
  have run: "amerge sched nexts = (out, [])"
    using a unfolding e by (elim conjE)
  have "(fst p, source_of (snd p)) \<in> set nexts"
    using a p by auto
  then have "map_of nexts (fst p) = Some (source_of (snd p))"
    using assms by (rule map_of_is_SomeI [rotated])
  then have "source_at nexts (fst p) = source_of (snd p)"
    by (simp add: source_at_def)
  moreover have "source_at nexts (fst p) = source_of (items_of (fst p) out)"
    using amerge_order [OF assms run, of "fst p"]
    by (simp add: source_at_def prepend_Exhausted)
  ultimately show "items_of (fst p) out = snd p"
    using source_of_inject [of "items_of (fst p) out" "snd p"] by simp
qed

theorem amerge_order_and_termination_witness:
  "amerge [0, 1, 2, 2, 1, 1, 0, 0]
      [(''a'', source_of [''a1'', ''a2'']), (''b'', source_of [''b1'', ''b2'']),
       (''c'', source_of [''c1''])] =
     ([(''a'', ''a1''), (''b'', ''b1''), (''c'', ''c1''), (''b'', ''b2''), (''a'', ''a2'')], [])
   \<and> length (fst (amerge [0, 1, 2, 2, 1, 1, 0, 0]
      [(''a'', source_of [''a1'', ''a2'']), (''b'', source_of [''b1'', ''b2'']),
       (''c'', source_of [''c1''])])) = 5
   \<and> items_of ''a'' (fst (amerge [0, 1, 2, 2, 1, 1, 0, 0]
      [(''a'', source_of [''a1'', ''a2'']), (''b'', source_of [''b1'', ''b2'']),
       (''c'', source_of [''c1''])])) = [''a1'', ''a2'']
   \<and> items_of ''b'' (fst (amerge [0, 1, 2, 2, 1, 1, 0, 0]
      [(''a'', source_of [''a1'', ''a2'']), (''b'', source_of [''b1'', ''b2'']),
       (''c'', source_of [''c1''])])) = [''b1'', ''b2'']
   \<and> all_finite [(''a'', source_of [''a1'', ''a2'']), (''b'', source_of [''b1'', ''b2'']),
       (''c'', source_of [''c1''])]
   \<and> (\<nexists>sched out. amerge sched [(''a'', source_of [''a1'', ''a2'']), (''b'', forever ''b1'')] =
         (out, []))"
proof -
  let ?srcs = "[(''a'', [''a1'', ''a2'']), (''b'', [''b1'', ''b2'']), (''c'', [''c1''])]"
  let ?nexts = "[(''a'', source_of [''a1'', ''a2'']), (''b'', source_of [''b1'', ''b2'']),
       (''c'', source_of [''c1''])]"
  let ?out = "[(''a'', ''a1''), (''b'', ''b1''), (''c'', ''c1''), (''b'', ''b2''), (''a'', ''a2'')]"
  have run: "amerge [0, 1, 2, 2, 1, 1, 0, 0] ?nexts = (?out, [])"
    by (simp add: amerge_round_def numeral_2_eq_2)
  have d: "distinct (map fst ?nexts)"
    by simp
  have m: "?nexts = map (\<lambda>p. (fst p, source_of (snd p))) ?srcs"
    by simp
  have d': "distinct (map fst [(''a'', source_of [''a1'', ''a2'']), (''b'', forever ''b1'')])"
    by simp
  have inf: "\<not> all_finite [(''a'', source_of [''a1'', ''a2'']), (''b'', forever ''b1'')]"
    by (simp add: all_finite_def forever_not_finite)
  have fin: "all_finite ?nexts"
    using amerge_order_and_termination [OF d] run by blast
  have len: "length ?out = 5"
    by simp
  have items: "items_of ''a'' ?out = [''a1'', ''a2'']" "items_of ''b'' ?out = [''b1'', ''b2'']"
    by (simp_all add: items_of_def)
  have never: "\<nexists>sched out.
      amerge sched [(''a'', source_of [''a1'', ''a2'']), (''b'', forever ''b1'')] = (out, [])"
    using amerge_order_and_termination [OF d'] inf by blast
  show ?thesis
    unfolding run using fin never len items by simp
qed

end
